theory Spec2Isabelle
  imports
    Complex_Main
    "HOL-Library.Char_ord"
    "HOL-Library.List_Lexorder"
    "HOL-Library.Product_Lexorder"
    "HOL-Library.Multiset"
begin

section \<open>JavaScript values\<close>

text \<open>
  The request bodies of \<^verbatim>\<open>backend/server.js\<close> are parsed JSON, so a field of a body is
  absent (\<open>undefined\<close>), \<open>null\<close>, a boolean, a number or a string. Arrays and objects as
  field values are outside this model.

  A number is a double: \<open>Fin x\<close> for the double whose value is the real \<open>x\<close>, or one of
  the three special values. An addition or a subtraction of two finite doubles rounds
  its exact result, with the function \<open>roundDouble\<close> of the runtime.
\<close>

datatype jsnum = Fin real | PInf | NInf | NaN

datatype jsval = JUndefined | JNull | JBool bool | JNum jsnum | JStr string

text \<open>
  The functions of the ECMAScript runtime and of the libraries that the handlers call
  on strings are parameters of the model: every theorem holds for all of them, and an
  example fixes the few values it needs.
  \<^item> \<open>strToNum\<close>: the conversion of a string to a number (\<open>Number(s)\<close>);
  \<^item> \<open>numToStr\<close>: the conversion of a number to a string (\<open>String(n)\<close>);
  \<^item> \<open>parseFloatStr\<close>: \<open>parseFloat\<close> on a string;
  \<^item> \<open>bcryptHash\<close>: \<open>bcrypt.hash(\<cdot>, 12)\<close>, with the salt it draws;
  \<^item> \<open>trim\<close>, \<open>toLowerCase\<close>: the string methods behind the schema options
    \<open>trim: true\<close> and \<open>lowercase: true\<close>;
  \<^item> \<open>parseDate\<close>: the time value of \<open>new Date(s)\<close> in milliseconds, \<open>None\<close> for an
    invalid date;
  \<^item> \<open>roundDouble\<close>: the double that the exact result of an arithmetic operation is
    rounded to (to the nearest double, ties to the even one, an infinity beyond the
    range of the doubles).
\<close>

record runtime =
  strToNum :: "string \<Rightarrow> jsnum"
  numToStr :: "jsnum \<Rightarrow> string"
  parseFloatStr :: "string \<Rightarrow> jsnum"
  bcryptHash :: "string \<Rightarrow> string"
  trim :: "string \<Rightarrow> string"
  toLowerCase :: "string \<Rightarrow> string"
  parseDate :: "string \<Rightarrow> int option"
  roundDouble :: "real \<Rightarrow> jsnum"

text \<open>\<open>!v\<close> is \<open>\<not> truthy v\<close>: the falsy values are \<open>undefined\<close>, \<open>null\<close>, \<open>false\<close>, \<open>0\<close>,
  \<open>NaN\<close> and the empty string.\<close>

fun truthy :: "jsval \<Rightarrow> bool" where
  "truthy JUndefined = False"
| "truthy JNull = False"
| "truthy (JBool b) = b"
| "truthy (JNum n) = (n \<noteq> Fin 0 \<and> n \<noteq> NaN)"
| "truthy (JStr s) = (s \<noteq> [])"

fun toNumber :: "runtime \<Rightarrow> jsval \<Rightarrow> jsnum" where
  "toNumber rt JUndefined = NaN"
| "toNumber rt JNull = Fin 0"
| "toNumber rt (JBool b) = Fin (if b then 1 else 0)"
| "toNumber rt (JNum n) = n"
| "toNumber rt (JStr s) = strToNum rt s"

fun toString :: "runtime \<Rightarrow> jsval \<Rightarrow> string" where
  "toString rt JUndefined = ''undefined''"
| "toString rt JNull = ''null''"
| "toString rt (JBool b) = (if b then ''true'' else ''false'')"
| "toString rt (JNum n) = numToStr rt n"
| "toString rt (JStr s) = s"

text \<open>The global \<open>isNaN(v)\<close> converts its argument to a number first.\<close>

definition isNaN :: "runtime \<Rightarrow> jsval \<Rightarrow> bool" where
  "isNaN rt v = (toNumber rt v = NaN)"

text \<open>\<open>parseFloat(v)\<close> converts its argument to a string first.\<close>

definition parseFloat :: "runtime \<Rightarrow> jsval \<Rightarrow> jsnum" where
  "parseFloat rt v = parseFloatStr rt (toString rt v)"

fun num_lt :: "jsnum \<Rightarrow> jsnum \<Rightarrow> bool" where
  "num_lt NaN y = False"
| "num_lt x NaN = False"
| "num_lt (Fin a) (Fin b) = (a < b)"
| "num_lt (Fin a) PInf = True"
| "num_lt (Fin a) NInf = False"
| "num_lt PInf y = False"
| "num_lt NInf NInf = False"
| "num_lt NInf y = True"

text \<open>\<open>x <= y\<close> on numbers is false when either is \<open>NaN\<close>, and \<open>\<not> (y < x)\<close> otherwise.\<close>

definition num_le :: "jsnum \<Rightarrow> jsnum \<Rightarrow> bool" where
  "num_le x y = (x \<noteq> NaN \<and> y \<noteq> NaN \<and> \<not> num_lt y x)"

text \<open>The sum of two numbers: the exact sum of two finite doubles, rounded; the
  operand that is infinite when only one is; \<open>NaN\<close> for \<open>NaN\<close> and for the two infinities
  of opposite sign.\<close>

fun num_add :: "runtime \<Rightarrow> jsnum \<Rightarrow> jsnum \<Rightarrow> jsnum" where
  "num_add rt NaN y = NaN"
| "num_add rt x NaN = NaN"
| "num_add rt (Fin a) (Fin b) = roundDouble rt (a + b)"
| "num_add rt (Fin a) y = y"
| "num_add rt x (Fin b) = x"
| "num_add rt PInf PInf = PInf"
| "num_add rt NInf NInf = NInf"
| "num_add rt PInf NInf = NaN"
| "num_add rt NInf PInf = NaN"

fun num_neg :: "jsnum \<Rightarrow> jsnum" where
  "num_neg (Fin a) = Fin (- a)"
| "num_neg PInf = NInf"
| "num_neg NInf = PInf"
| "num_neg NaN = NaN"

text \<open>\<open>x - y\<close> is \<open>x + (-y)\<close>; the negation of a double is exact.\<close>

definition num_sub :: "runtime \<Rightarrow> jsnum \<Rightarrow> jsnum \<Rightarrow> jsnum" where
  "num_sub rt x y = num_add rt x (num_neg y)"

text \<open>The relational operators: two strings are compared as strings, by their code
  units; anything else is converted to numbers.\<close>

fun js_lt :: "runtime \<Rightarrow> jsval \<Rightarrow> jsval \<Rightarrow> bool" where
  "js_lt rt (JStr a) (JStr b) = (a < b)"
| "js_lt rt x y = num_lt (toNumber rt x) (toNumber rt y)"

fun js_le :: "runtime \<Rightarrow> jsval \<Rightarrow> jsval \<Rightarrow> bool" where
  "js_le rt (JStr a) (JStr b) = (a \<le> b)"
| "js_le rt x y = num_le (toNumber rt x) (toNumber rt y)"

text \<open>\<open>x + y\<close>: concatenation as soon as one operand is a string, the sum of the
  numbers otherwise.\<close>

fun js_plus :: "runtime \<Rightarrow> jsval \<Rightarrow> jsval \<Rightarrow> jsval" where
  "js_plus rt (JStr a) y = JStr (a @ toString rt y)"
| "js_plus rt x (JStr b) = JStr (toString rt x @ b)"
| "js_plus rt x y = JNum (num_add rt (toNumber rt x) (toNumber rt y))"

section \<open>The document store\<close>

text \<open>
  The two collections of the store, in the order the store scans them. An \<open>_id\<close> is a
  natural number; \<open>createdAt\<close> is a time value in milliseconds. A stored \<open>totalBudget\<close> is a
  number or \<open>null\<close>, a stored expense \<open>amount\<close> a number.
\<close>

type_synonym oid = nat

record user =
  u_id :: oid
  username :: string
  email :: string
  password :: string
  totalBudget :: jsval
  u_createdAt :: int

record expense =
  e_id :: oid
  userId :: oid
  date :: string
  item :: string
  amount :: jsnum
  quantity :: string
  mode :: string
  createdAt :: int

record store =
  users :: "user list"
  expenses :: "expense list"

text \<open>Every response that is not a success is a status code with one message. The
  constructor is the kind of failure, \<open>status\<close> the code sent.\<close>

datatype error =
  ValidationError string
| ConflictError string
| AuthError string
| NotFoundError string
| ServerError string

fun status :: "error \<Rightarrow> nat" where
  "status (ValidationError m) = 400"
| "status (ConflictError m) = 400"
| "status (AuthError m) = 401"
| "status (NotFoundError m) = 404"
| "status (ServerError m) = 500"

subsection \<open>Casting by the schema\<close>

text \<open>
  Assigning to a path of a document casts the value to the path's schema type. For a
  \<open>Number\<close> path: \<open>null\<close> and \<open>undefined\<close> are kept, the empty string becomes \<open>null\<close>, a
  string or a boolean is converted with \<open>Number\<close>, and \<open>NaN\<close> is a cast error (\<open>None\<close>).
  For a \<open>String\<close> path: \<open>null\<close> and \<open>undefined\<close> are kept (\<open>None\<close> here), anything else is
  its \<open>toString()\<close>.
\<close>

fun castNumber :: "runtime \<Rightarrow> jsval \<Rightarrow> jsval option" where
  "castNumber rt JUndefined = Some JUndefined"
| "castNumber rt JNull = Some JNull"
| "castNumber rt (JStr s) =
     (if s = [] then Some JNull
      else if strToNum rt s = NaN then None
      else Some (JNum (strToNum rt s)))"
| "castNumber rt v = (if toNumber rt v = NaN then None else Some (JNum (toNumber rt v)))"

fun castString :: "runtime \<Rightarrow> jsval \<Rightarrow> string option" where
  "castString rt JUndefined = None"
| "castString rt JNull = None"
| "castString rt v = Some (toString rt v)"

subsection \<open>The user document of a request\<close>

text \<open>
  \<open>req.user\<close> is the document that \<open>authMiddleware\<close> loads with
  \<open>User.findById(...).select('-password')\<close>: the password is not loaded. The document
  records the paths assigned since it was loaded (\<open>modified\<close>, what \<open>isModified\<close> reads)
  and the paths whose assignment did not cast (\<open>castErrors\<close>, which make \<open>save\<close> fail).
\<close>

record user_doc =
  d_id :: oid
  d_username :: string
  d_email :: string
  d_password :: "string option"
  d_totalBudget :: jsval
  d_createdAt :: int
  modified :: "string list"
  castErrors :: "string list"

definition isModified :: "user_doc \<Rightarrow> string \<Rightarrow> bool" where
  "isModified d p = (p \<in> set (modified d))"

definition findById :: "store \<Rightarrow> oid \<Rightarrow> user option" where
  "findById s i = find (\<lambda>u. u_id u = i) (users s)"

definition select_no_password :: "user \<Rightarrow> user_doc" where
  "select_no_password u =
     \<lparr>d_id = u_id u, d_username = username u, d_email = email u, d_password = None,
      d_totalBudget = totalBudget u, d_createdAt = u_createdAt u,
      modified = [], castErrors = []\<rparr>"

text \<open>\<open>authMiddleware\<close> (\<^verbatim>\<open>server.js\<close>, lines 66 to 82). The bearer token of a request
  is modelled after \<open>jwt.verify\<close>: absent, rejected (malformed, wrongly signed or
  expired), or verified with the \<open>userId\<close> it carries.\<close>

datatype token = NoToken | BadToken | Token oid

fun authMiddleware :: "store \<Rightarrow> token \<Rightarrow> error + user_doc" where
  "authMiddleware s NoToken = Inl (AuthError ''Access denied. No token provided.'')"
| "authMiddleware s BadToken = Inl (AuthError ''Invalid or expired token.'')"
| "authMiddleware s (Token i) =
     (case findById s i of
        None \<Rightarrow> Inl (AuthError ''Invalid token. User not found.'')
      | Some u \<Rightarrow> Inr (select_no_password u))"

text \<open>Assigning \<open>doc.totalBudget = v\<close>: the value is cast; a value that differs from the
  current one marks the path modified.\<close>

definition set_totalBudget :: "runtime \<Rightarrow> user_doc \<Rightarrow> jsval \<Rightarrow> user_doc" where
  "set_totalBudget rt d v =
     (case castNumber rt v of
        None \<Rightarrow> d\<lparr>castErrors := ''totalBudget'' # castErrors d\<rparr>
      | Some w \<Rightarrow>
          if w = d_totalBudget d then d
          else d\<lparr>d_totalBudget := w, modified := ''totalBudget'' # modified d\<rparr>)"

text \<open>\<open>userSchema.pre('save')\<close> (lines 39 to 43): the password is hashed only when it
  was modified.\<close>

definition pre_save :: "runtime \<Rightarrow> user_doc \<Rightarrow> user_doc" where
  "pre_save rt d =
     (if \<not> isModified d ''password'' then d
      else d\<lparr>d_password := map_option (bcryptHash rt) (d_password d)\<rparr>)"

text \<open>Writing the modified paths of a loaded document to its stored account.\<close>

definition write_paths :: "user_doc \<Rightarrow> user \<Rightarrow> user" where
  "write_paths d u =
     u\<lparr>password :=
         (if isModified d ''password''
          then (case d_password d of Some p \<Rightarrow> p | None \<Rightarrow> password u)
          else password u),
       totalBudget :=
         (if isModified d ''totalBudget'' then d_totalBudget d else totalBudget u)\<rparr>"

text \<open>\<open>doc.save()\<close> of a loaded document: it fails (\<open>None\<close>, the promise rejects) when an
  assignment did not cast; otherwise the hook runs and the modified paths are written.\<close>

definition save :: "runtime \<Rightarrow> store \<Rightarrow> user_doc \<Rightarrow> store option" where
  "save rt s d =
     (if castErrors d \<noteq> [] then None
      else
        let d' = pre_save rt d in
        Some (s\<lparr>users := map (\<lambda>u. if u_id u = d_id d' then write_paths d' u else u) (users s)\<rparr>))"

section \<open>Budget routes\<close>

text \<open>\<open>PUT /api/budget/set\<close> (lines 177 to 189), after the middleware. The result is
  the store and the response: an error, or the \<open>totalBudget\<close> sent back.\<close>

definition put_budget_set :: "runtime \<Rightarrow> store \<Rightarrow> user_doc \<Rightarrow> jsval \<Rightarrow> store \<times> (error + jsval)" where
  "put_budget_set rt s req_user amt =
     (if amt = JUndefined \<or> isNaN rt amt \<or> js_lt rt amt (JNum (Fin 0))
      then (s, Inl (ValidationError ''Please provide a valid budget amount.''))
      else
        let u = set_totalBudget rt req_user amt in
        (case save rt s u of
           None \<Rightarrow> (s, Inl (ServerError ''Server error.''))
         | Some s' \<Rightarrow> (s', Inr (d_totalBudget u))))"

text \<open>\<open>PUT /api/budget/add\<close> (lines 192 to 204), after the middleware.\<close>

definition put_budget_add :: "runtime \<Rightarrow> store \<Rightarrow> user_doc \<Rightarrow> jsval \<Rightarrow> store \<times> (error + jsval)" where
  "put_budget_add rt s req_user amt =
     (if amt = JUndefined \<or> isNaN rt amt \<or> js_le rt amt (JNum (Fin 0))
      then (s, Inl (ValidationError ''Please provide a valid amount to add.''))
      else
        let u = set_totalBudget rt req_user (js_plus rt (d_totalBudget req_user) amt) in
        (case save rt s u of
           None \<Rightarrow> (s, Inl (ServerError ''Server error.''))
         | Some s' \<Rightarrow> (s', Inr (d_totalBudget u))))"

text \<open>A route is the middleware, then the handler.\<close>

definition route ::
  "(store \<Rightarrow> user_doc \<Rightarrow> store \<times> (error + 'a)) \<Rightarrow> store \<Rightarrow> token \<Rightarrow> store \<times> (error + 'a)" where
  "route handler s tok =
     (case authMiddleware s tok of
        Inl e \<Rightarrow> (s, Inl e)
      | Inr req_user \<Rightarrow> handler s req_user)"

text \<open>The budget total the store holds for an account.\<close>

definition budget_of :: "store \<Rightarrow> oid \<Rightarrow> jsval option" where
  "budget_of s i = map_option totalBudget (findById s i)"

definition api_budget_set :: "runtime \<Rightarrow> store \<Rightarrow> token \<Rightarrow> jsval \<Rightarrow> store \<times> (error + jsval)" where
  "api_budget_set rt s tok amt = route (\<lambda>s' req_user. put_budget_set rt s' req_user amt) s tok"

definition api_budget_add :: "runtime \<Rightarrow> store \<Rightarrow> token \<Rightarrow> jsval \<Rightarrow> store \<times> (error + jsval)" where
  "api_budget_add rt s tok amt = route (\<lambda>s' req_user. put_budget_add rt s' req_user amt) s tok"

section \<open>Expense routes\<close>

text \<open>\<open>GET /api/expenses\<close> (lines 209 to 216):
  \<open>Expense.find({userId}).sort({date: 1, createdAt: 1})\<close>. The store compares the \<open>date\<close>
  strings byte by byte and the \<open>createdAt\<close> time values as numbers; the sort of the model
  is stable, so expenses that agree on both keys stay in the order of the store.\<close>

definition get_expenses :: "store \<Rightarrow> user_doc \<Rightarrow> store \<times> (error + expense list)" where
  "get_expenses s req_user =
     (s, Inr (sort_key (\<lambda>e. (date e, createdAt e))
                (filter (\<lambda>e. userId e = d_id req_user) (expenses s))))"

record expense_body =
  b_date :: jsval
  b_item :: jsval
  b_amount :: jsval
  b_quantity :: jsval
  b_mode :: jsval

text \<open>\<open>new Expense({...})\<close> followed by the validation that \<open>save\<close> runs: every path is
  cast, a \<open>String\<close> path that is required must not be empty, the \<open>Number\<close> path must be
  a number. \<open>now\<close> is the value of \<open>Date.now\<close> and \<open>new_id\<close> the generated \<open>_id\<close>.\<close>

definition new_expense :: "runtime \<Rightarrow> oid \<Rightarrow> expense_body \<Rightarrow> int \<Rightarrow> oid \<Rightarrow> expense option" where
  "new_expense rt uid body now new_id =
     (case (castString rt (b_date body), castString rt (b_item body),
            castNumber rt (JNum (parseFloat rt (b_amount body))),
            castString rt (b_quantity body), castString rt (b_mode body)) of
        (Some d, Some i, Some (JNum a), Some q, Some m) \<Rightarrow>
          if d = [] \<or> i = [] \<or> q = [] \<or> m = [] then None
          else Some \<lparr>e_id = new_id, userId = uid, date = d, item = i, amount = a,
                      quantity = q, mode = m, createdAt = now\<rparr>
      | _ \<Rightarrow> None)"

text \<open>\<open>POST /api/expenses\<close> (lines 219 to 238), after the middleware.\<close>

definition post_expenses ::
  "runtime \<Rightarrow> store \<Rightarrow> user_doc \<Rightarrow> expense_body \<Rightarrow> int \<Rightarrow> oid \<Rightarrow> store \<times> (error + expense)" where
  "post_expenses rt s req_user body now new_id =
     (if \<not> truthy (b_date body) \<or> \<not> truthy (b_item body) \<or> \<not> truthy (b_amount body)
         \<or> \<not> truthy (b_quantity body) \<or> \<not> truthy (b_mode body)
      then (s, Inl (ValidationError ''All fields are required.''))
      else
        (case new_expense rt (d_id req_user) body now new_id of
           None \<Rightarrow> (s, Inl (ServerError ''Server error.''))
         | Some e \<Rightarrow> (s\<lparr>expenses := expenses s @ [e]\<rparr>, Inr e)))"

text \<open>\<open>Expense.findOneAndDelete({_id, userId})\<close>: the first expense with that \<open>_id\<close> and
  that owner is removed and returned.\<close>

fun findOneAndDelete :: "oid \<Rightarrow> oid \<Rightarrow> expense list \<Rightarrow> (expense \<times> expense list) option" where
  "findOneAndDelete i uid [] = None"
| "findOneAndDelete i uid (e # es) =
     (if e_id e = i \<and> userId e = uid then Some (e, es)
      else map_option (\<lambda>(x, r). (x, e # r)) (findOneAndDelete i uid es))"

text \<open>\<open>DELETE /api/expenses/:id\<close> (lines 241 to 251), after the middleware. The path
  segment is \<open>None\<close> when it does not cast to an \<open>_id\<close>: the query throws and the handler
  answers 500.\<close>

definition delete_expense ::
  "store \<Rightarrow> user_doc \<Rightarrow> oid option \<Rightarrow> store \<times> (error + string)" where
  "delete_expense s req_user id_param =
     (case id_param of
        None \<Rightarrow> (s, Inl (ServerError ''Server error.''))
      | Some i \<Rightarrow>
          (case findOneAndDelete i (d_id req_user) (expenses s) of
             None \<Rightarrow> (s, Inl (NotFoundError ''Expense not found.''))
           | Some (e, rest) \<Rightarrow> (s\<lparr>expenses := rest\<rparr>, Inr ''Expense deleted.'')))"

definition deleteMany :: "store \<Rightarrow> oid \<Rightarrow> store" where
  "deleteMany s uid = s\<lparr>expenses := filter (\<lambda>e. userId e \<noteq> uid) (expenses s)\<rparr>"

text \<open>\<open>DELETE /api/expenses\<close> (lines 254 to 263), after the middleware: two awaited store
  operations, first \<open>Expense.deleteMany\<close>, then \<open>req.user.save()\<close> with the budget set
  to 0.\<close>

definition delete_expenses :: "runtime \<Rightarrow> store \<Rightarrow> user_doc \<Rightarrow> store \<times> (error + string)" where
  "delete_expenses rt s req_user =
     (let s1 = deleteMany s (d_id req_user);
          u = set_totalBudget rt req_user (JNum (Fin 0))
      in case save rt s1 u of
           None \<Rightarrow> (s1, Inl (ServerError ''Server error.''))
         | Some s2 \<Rightarrow> (s2, Inr ''All data cleared.''))"

text \<open>The states of the store while \<open>DELETE /api/expenses\<close> runs, in order: when the
  handler starts, between its two awaited operations, and when \<open>save\<close> has succeeded.
  The handler yields to other requests at each \<open>await\<close>, so each of these states is one
  that a request served meanwhile reads.\<close>

definition delete_expenses_states :: "runtime \<Rightarrow> store \<Rightarrow> user_doc \<Rightarrow> store list" where
  "delete_expenses_states rt s req_user =
     (let s1 = deleteMany s (d_id req_user);
          u = set_totalBudget rt req_user (JNum (Fin 0))
      in s # s1 # (case save rt s1 u of None \<Rightarrow> [] | Some s2 \<Rightarrow> [s2]))"

definition api_get_expenses :: "store \<Rightarrow> token \<Rightarrow> store \<times> (error + expense list)" where
  "api_get_expenses s tok = route get_expenses s tok"

definition api_post_expenses ::
  "runtime \<Rightarrow> store \<Rightarrow> token \<Rightarrow> expense_body \<Rightarrow> int \<Rightarrow> oid \<Rightarrow> store \<times> (error + expense)" where
  "api_post_expenses rt s tok body now new_id =
     route (\<lambda>s' req_user. post_expenses rt s' req_user body now new_id) s tok"

definition api_delete_expense :: "store \<Rightarrow> token \<Rightarrow> oid option \<Rightarrow> store \<times> (error + string)" where
  "api_delete_expense s tok id_param =
     route (\<lambda>s' req_user. delete_expense s' req_user id_param) s tok"

definition api_delete_expenses :: "runtime \<Rightarrow> store \<Rightarrow> token \<Rightarrow> store \<times> (error + string)" where
  "api_delete_expenses rt s tok = route (delete_expenses rt) s tok"

text \<open>The expenses the store holds for an account, in the order it holds them.\<close>

definition ledger :: "store \<Rightarrow> oid \<Rightarrow> expense list" where
  "ledger s uid = filter (\<lambda>e. userId e = uid) (expenses s)"

section \<open>Signup\<close>

record signup_body =
  b_username :: jsval
  b_email :: jsval
  b_password :: jsval

record public_user =
  p_id :: oid
  p_username :: string
  p_email :: string
  p_totalBudget :: jsval

text \<open>\<open>v.length\<close> for a value that is neither \<open>null\<close> nor \<open>undefined\<close>: the length of a
  string, \<open>undefined\<close> for a number or a boolean.\<close>

fun js_length :: "jsval \<Rightarrow> jsval" where
  "js_length (JStr s) = JNum (Fin (real (length s)))"
| "js_length v = JUndefined"

text \<open>What the schema makes of the three paths, in a query filter as in a document: the
  value is cast to a string, \<open>email\<close> is lower-cased and trimmed, \<open>username\<close> trimmed.\<close>

definition set_username :: "runtime \<Rightarrow> jsval \<Rightarrow> string option" where
  "set_username rt v = map_option (trim rt) (castString rt v)"

definition set_email :: "runtime \<Rightarrow> jsval \<Rightarrow> string option" where
  "set_email rt v = map_option (\<lambda>s. trim rt (toLowerCase rt s)) (castString rt v)"

text \<open>\<open>User.findOne({ $or: [{ email }, { username }] })\<close>: an account that has the email or
  the username of the filter. The query names no sort, so which of several such accounts
  comes back is the choice of the store; in the model the list \<open>users\<close> is in the order of
  that choice, and the first match is returned. What is proved of signup below holds
  for every order of the list.\<close>

definition findOne_email_or_username :: "runtime \<Rightarrow> store \<Rightarrow> jsval \<Rightarrow> jsval \<Rightarrow> user option" where
  "findOne_email_or_username rt s em un =
     find (\<lambda>u. Some (email u) = set_email rt em \<or> Some (username u) = set_username rt un) (users s)"

text \<open>\<open>new User({username, email, password})\<close> followed by \<open>save\<close>: the validation of the
  schema (required, \<open>minlength\<close>), then the hook, which hashes the password of a new
  document, then the insertion, which the unique indexes on \<open>username\<close> and \<open>email\<close> can
  refuse.\<close>

definition new_user :: "runtime \<Rightarrow> store \<Rightarrow> signup_body \<Rightarrow> int \<Rightarrow> oid \<Rightarrow> user option" where
  "new_user rt s body now new_id =
     (case (set_username rt (b_username body), set_email rt (b_email body),
            castString rt (b_password body)) of
        (Some un, Some em, Some pw) \<Rightarrow>
          if un = [] \<or> em = [] \<or> pw = [] \<or> length un < 3 \<or> length pw < 6 then None
          else if \<exists>u \<in> set (users s). username u = un \<or> email u = em then None
          else Some \<lparr>u_id = new_id, username = un, email = em, password = bcryptHash rt pw,
                      totalBudget = JNum (Fin 0), u_createdAt = now\<rparr>
      | _ \<Rightarrow> None)"

text \<open>\<open>POST /api/auth/signup\<close> (lines 87 to 123). A success carries the signed token
  and the public view of the account.\<close>

definition post_auth_signup ::
  "runtime \<Rightarrow> store \<Rightarrow> signup_body \<Rightarrow> int \<Rightarrow> oid \<Rightarrow> store \<times> (error + token \<times> public_user)" where
  "post_auth_signup rt s body now new_id =
     (if \<not> truthy (b_username body) \<or> \<not> truthy (b_email body) \<or> \<not> truthy (b_password body)
      then (s, Inl (ValidationError ''All fields are required.''))
      else if js_lt rt (js_length (b_username body)) (JNum (Fin 3))
      then (s, Inl (ValidationError ''Username must be at least 3 characters.''))
      else if js_lt rt (js_length (b_password body)) (JNum (Fin 6))
      then (s, Inl (ValidationError ''Password must be at least 6 characters.''))
      else
        (case findOne_email_or_username rt s (b_email body) (b_username body) of
           Some existingUser \<Rightarrow>
             if JStr (email existingUser) = b_email body
             then (s, Inl (ConflictError ''Email already registered.''))
             else (s, Inl (ConflictError ''Username already taken.''))
         | None \<Rightarrow>
             (case new_user rt s body now new_id of
                None \<Rightarrow> (s, Inl (ServerError ''Server error. Please try again.''))
              | Some u \<Rightarrow>
                  (s\<lparr>users := users s @ [u]\<rparr>,
                   Inr (Token (u_id u),
                        \<lparr>p_id = u_id u, p_username = username u, p_email = email u,
                         p_totalBudget = totalBudget u\<rparr>)))))"

text \<open>A body that passes the three field checks of the handler, and a body whose email
  or username, as the schema normalises them, some stored account already has.\<close>

definition field_checks_pass :: "runtime \<Rightarrow> signup_body \<Rightarrow> bool" where
  "field_checks_pass rt body =
     (truthy (b_username body) \<and> truthy (b_email body) \<and> truthy (b_password body)
      \<and> \<not> js_lt rt (js_length (b_username body)) (JNum (Fin 3))
      \<and> \<not> js_lt rt (js_length (b_password body)) (JNum (Fin 6)))"

definition already_taken :: "runtime \<Rightarrow> store \<Rightarrow> signup_body \<Rightarrow> bool" where
  "already_taken rt s body =
     (\<exists>u \<in> set (users s). Some (email u) = set_email rt (b_email body)
                          \<or> Some (username u) = set_username rt (b_username body))"

section \<open>The client's table\<close>

text \<open>
  \<^verbatim>\<open>script.js\<close> keeps the budget and the expenses it fetched in two globals. An expense
  there is the JSON the server sent: \<open>date\<close> is a string, \<open>amount\<close> a number (or \<open>null\<close>, which
  is how JSON writes an infinite number).
\<close>

record client_expense =
  c_id :: string
  c_date :: string
  c_item :: string
  c_amount :: jsval
  c_quantity :: string
  c_mode :: string

record client =
  c_totalBudget :: jsnum
  c_expenses :: "client_expense list"

text \<open>The comparator \<open>(a, b) => new Date(a.date) - new Date(b.date)\<close>: the difference of
  the two time values, \<open>NaN\<close> when one of the dates is invalid. A time value is an integer
  of at most 8.64e15 in magnitude, so the double that the difference rounds to has the
  sign of the exact difference; \<open>sort\<close> reads only that sign, and the model gives the
  comparator the exact difference.\<close>

definition date_compare :: "runtime \<Rightarrow> client_expense \<Rightarrow> client_expense \<Rightarrow> jsnum" where
  "date_compare rt a b =
     (case (parseDate rt (c_date a), parseDate rt (c_date b)) of
        (Some x, Some y) \<Rightarrow> Fin (real_of_int (x - y))
      | _ \<Rightarrow> NaN)"

text \<open>A comparator \<open>cmp\<close> is consistent on a list, in the sense of ECMAScript, when on
  its elements it never returns \<open>NaN\<close>, the relation \<open>cmp a b = 0\<close> is reflexive, symmetric
  and transitive, and the relations \<open>cmp a b < 0\<close> and \<open>cmp a b > 0\<close> are transitive.\<close>

definition consistent_comparator :: "('a \<Rightarrow> 'a \<Rightarrow> jsnum) \<Rightarrow> 'a list \<Rightarrow> bool" where
  "consistent_comparator cmp xs =
     (\<forall>a \<in> set xs. \<forall>b \<in> set xs. \<forall>c \<in> set xs.
        cmp a b \<noteq> NaN \<and> cmp a a = Fin 0
        \<and> (cmp a b = Fin 0 \<longrightarrow> cmp b a = Fin 0)
        \<and> (cmp a b = Fin 0 \<and> cmp b c = Fin 0 \<longrightarrow> cmp a c = Fin 0)
        \<and> (num_lt (cmp a b) (Fin 0) \<and> num_lt (cmp b c) (Fin 0) \<longrightarrow> num_lt (cmp a c) (Fin 0))
        \<and> (num_lt (Fin 0) (cmp a b) \<and> num_lt (Fin 0) (cmp b c) \<longrightarrow> num_lt (Fin 0) (cmp a c)))"

text \<open>\<open>Array.prototype.sort\<close> with a comparator. For a consistent comparator the result
  is fixed: the elements in ascending order of the comparator, those that compare equal
  in their former order; the insertion below computes it. For any other comparator
  (here: as soon as a date is invalid) ECMAScript leaves the order to the engine, and the
  model gives no list (\<open>None\<close>).\<close>

fun insert_by :: "('a \<Rightarrow> 'a \<Rightarrow> jsnum) \<Rightarrow> 'a \<Rightarrow> 'a list \<Rightarrow> 'a list" where
  "insert_by cmp x [] = [x]"
| "insert_by cmp x (y # ys) =
     (if num_lt (Fin 0) (cmp x y) then y # insert_by cmp x ys else x # y # ys)"

definition js_sort :: "('a \<Rightarrow> 'a \<Rightarrow> jsnum) \<Rightarrow> 'a list \<Rightarrow> 'a list option" where
  "js_sort cmp xs =
     (if consistent_comparator cmp xs then Some (foldr (insert_by cmp) xs []) else None)"

record row =
  r_expense :: client_expense
  r_balance :: jsnum
  r_negative :: bool

text \<open>The \<open>forEach\<close> of \<open>updateTable\<close>: \<open>runningBalance -= parseFloat(exp.amount)\<close>, then one
  row with that balance, of class \<open>negative\<close> when \<open>runningBalance < 0\<close>.\<close>

fun rows_from :: "runtime \<Rightarrow> jsnum \<Rightarrow> client_expense list \<Rightarrow> row list" where
  "rows_from rt runningBalance [] = []"
| "rows_from rt runningBalance (e # es) =
     (let runningBalance' = num_sub rt runningBalance (parseFloat rt (c_amount e))
      in \<lparr>r_expense = e, r_balance = runningBalance',
          r_negative = num_lt runningBalance' (Fin 0)\<rparr>
         # rows_from rt runningBalance' es)"

datatype table = NoTable | EmptyState | Rows "row list"

text \<open>\<open>updateTable()\<close> (\<^verbatim>\<open>script.js\<close>, lines 146 to 171): nothing on a page without
  the table body, the placeholder row for no expenses; otherwise the global list is
  sorted in place and one row is made for each expense. The result is \<open>None\<close> when the
  order of the sort is the engine's choice. The cell shows the balance with
  \<open>toFixed(2)\<close>; the row of the model carries the balance itself.\<close>

definition updateTable :: "runtime \<Rightarrow> bool \<Rightarrow> client \<Rightarrow> (client \<times> table) option" where
  "updateTable rt tbody c =
     (if \<not> tbody then Some (c, NoTable)
      else if c_expenses c = [] then Some (c, EmptyState)
      else
        (case js_sort (date_compare rt) (c_expenses c) of
           None \<Rightarrow> None
         | Some sorted_expenses \<Rightarrow>
             Some (c\<lparr>c_expenses := sorted_expenses\<rparr>,
                   Rows (rows_from rt (c_totalBudget c) sorted_expenses))))"

text \<open>The time value of an expense's date, and its amount as the table reads it.\<close>

definition time_value :: "runtime \<Rightarrow> client_expense \<Rightarrow> int" where
  "time_value rt e = (case parseDate rt (c_date e) of Some t \<Rightarrow> t | None \<Rightarrow> 0)"

definition amount_value :: "runtime \<Rightarrow> client_expense \<Rightarrow> real" where
  "amount_value rt e = (case parseFloat rt (c_amount e) of Fin a \<Rightarrow> a | _ \<Rightarrow> 0)"

text \<open>The accumulator of the walk after the expenses \<open>es\<close>: it starts as the budget and
  each amount is subtracted from it in turn, in double arithmetic.\<close>

definition running_balance :: "runtime \<Rightarrow> jsnum \<Rightarrow> client_expense list \<Rightarrow> jsnum" where
  "running_balance rt budget es =
     foldl (\<lambda>acc e. num_sub rt acc (parseFloat rt (c_amount e))) budget es"

text \<open>Row \<open>k\<close> of the table as the walk makes it: the accumulator after the expenses
  up to and including \<open>k\<close>, flagged when it is below 0.\<close>

definition row_shown :: "runtime \<Rightarrow> jsnum \<Rightarrow> client_expense list \<Rightarrow> nat \<Rightarrow> row" where
  "row_shown rt budget xs k =
     \<lparr>r_expense = xs ! k,
      r_balance = running_balance rt budget (take (Suc k) xs),
      r_negative = num_lt (running_balance rt budget (take (Suc k) xs)) (Fin 0)\<rparr>"

text \<open>Row \<open>k\<close> of the table for the budget \<open>budget\<close> and the sorted list \<open>xs\<close>, as the
  glossary defines the running balance: the budget minus the amounts of the rows up to
  and including \<open>k\<close>, in exact arithmetic.\<close>

definition row_at :: "runtime \<Rightarrow> real \<Rightarrow> client_expense list \<Rightarrow> nat \<Rightarrow> row" where
  "row_at rt budget xs k =
     \<lparr>r_expense = xs ! k,
      r_balance = Fin (budget - (\<Sum>j\<le>k. amount_value rt (xs ! j))),
      r_negative = (budget - (\<Sum>j\<le>k. amount_value rt (xs ! j)) < 0)\<rparr>"

section \<open>Examples\<close>

text \<open>The doubles nearest to 0.11, 0.01 and 0.1.\<close>

definition dbl_011 :: real where
  "dbl_011 = 7926335344172073 / 2 ^ 56"

definition dbl_001 :: real where
  "dbl_001 = 5764607523034235 / 2 ^ 59"

definition dbl_01 :: real where
  "dbl_01 = 7205759403792794 / 2 ^ 56"

text \<open>The runtime, as a table of its values at the arguments the examples use: the
  decimal numerals convert to their numbers and back, \<open>parseFloat\<close> of the text \<open>null\<close>
  is \<open>NaN\<close>, the strings of the examples are already trimmed, \<open>A@X.com\<close> in lower case is
  \<open>a@x.com\<close> and the other strings are in lower case already, a date is midnight UTC of
  its day and \<open>soon\<close> is no date, and the sums and differences of the examples are doubles
  themselves but for \<open>0.11 - 0.01\<close>, which rounds to the double \<open>0.1\<close>. No example reads the
  table at another argument.\<close>

definition example_rt :: runtime where
  "example_rt =
     \<lparr>strToNum = (\<lambda>s. if s = ''5'' then Fin 5 else if s = ''105'' then Fin 105 else NaN),
      numToStr = (\<lambda>n. if n = Fin 10 then ''10'' else if n = Fin 50 then ''50''
                       else if n = Fin 20 then ''20''
                       else if n = Fin dbl_001 then ''0.01''
                       else if n = Fin dbl_01 then ''0.1'' else ''NaN''),
      parseFloatStr = (\<lambda>s. if s = ''50'' then Fin 50 else if s = ''20'' then Fin 20
                            else if s = ''0.01'' then Fin dbl_001
                            else if s = ''0.1'' then Fin dbl_01 else NaN),
      bcryptHash = (\<lambda>s. ''$2a$12$'' @ s),
      trim = (\<lambda>s. s),
      toLowerCase = (\<lambda>s. if s = ''A@X.com'' then ''a@x.com'' else s),
      parseDate = (\<lambda>s. if s = ''2024-01-02'' then Some 1704153600000
                        else if s = ''2024-01-05'' then Some 1704412800000
                        else if s = ''2024-01-10'' then Some 1704844800000
                        else None),
      roundDouble = (\<lambda>x. if x = 40 then Fin 40 else if x = - 10 then Fin (- 10)
                          else if x = 0 then Fin 0
                          else if x = dbl_011 - dbl_001 then Fin dbl_01 else NaN)\<rparr>"

definition alice :: user where
  "alice = \<lparr>u_id = 1, username = ''alice'', email = ''a@x.com'',
            password = ''$2a$12$secret1'', totalBudget = JNum (Fin 10), u_createdAt = 0\<rparr>"

definition bob :: user where
  "bob = \<lparr>u_id = 2, username = ''bob'', email = ''b@x.com'',
          password = ''$2a$12$secret2'', totalBudget = JNum (Fin 0), u_createdAt = 1\<rparr>"

definition tea :: expense where
  "tea = \<lparr>e_id = 7, userId = 1, date = ''2024-01-05'', item = ''Tea'', amount = Fin 50,
          quantity = ''1'', mode = ''Cash'', createdAt = 5\<rparr>"

definition rice :: expense where
  "rice = \<lparr>e_id = 8, userId = 2, date = ''2024-01-02'', item = ''Rice'', amount = Fin 20,
           quantity = ''2kg'', mode = ''UPI'', createdAt = 6\<rparr>"

definition store0 :: store where
  "store0 = \<lparr>users = [alice, bob], expenses = [tea, rice]\<rparr>"


definition jan10 :: expense where
  "jan10 = \<lparr>e_id = 11, userId = 1, date = ''2024-01-10'', item = ''Tea'', amount = Fin 50,
            quantity = ''1'', mode = ''Cash'', createdAt = 100\<rparr>"

definition jan02 :: expense where
  "jan02 = \<lparr>e_id = 12, userId = 1, date = ''2024-01-02'', item = ''Rice'', amount = Fin 20,
            quantity = ''2kg'', mode = ''UPI'', createdAt = 200\<rparr>"

definition jan10_body :: expense_body where
  "jan10_body = \<lparr>b_date = JStr ''2024-01-10'', b_item = JStr ''Tea'', b_amount = JNum (Fin 50),
                 b_quantity = JStr ''1'', b_mode = JStr ''Cash''\<rparr>"

definition jan02_body :: expense_body where
  "jan02_body = \<lparr>b_date = JStr ''2024-01-02'', b_item = JStr ''Rice'', b_amount = JNum (Fin 20),
                 b_quantity = JStr ''2kg'', b_mode = JStr ''UPI''\<rparr>"

definition jan10c :: client_expense where
  "jan10c = \<lparr>c_id = ''65a0'', c_date = ''2024-01-10'', c_item = ''Tea'', c_amount = JNum (Fin 50),
             c_quantity = ''1'', c_mode = ''Cash''\<rparr>"

definition jan02c :: client_expense where
  "jan02c = \<lparr>c_id = ''65a1'', c_date = ''2024-01-02'', c_item = ''Rice'', c_amount = JNum (Fin 20),
             c_quantity = ''2kg'', c_mode = ''UPI''\<rparr>"

definition cent :: client_expense where
  "cent = \<lparr>c_id = ''65a2'', c_date = ''2024-01-02'', c_item = ''Salt'', c_amount = JNum (Fin dbl_001),
           c_quantity = ''1'', c_mode = ''Cash''\<rparr>"

definition dime :: client_expense where
  "dime = \<lparr>c_id = ''65a3'', c_date = ''2024-01-05'', c_item = ''Mint'', c_amount = JNum (Fin dbl_01),
           c_quantity = ''1'', c_mode = ''Cash''\<rparr>"

definition no_amount :: client_expense where
  "no_amount = \<lparr>c_id = ''65a4'', c_date = ''2024-01-05'', c_item = ''Gold'', c_amount = JNull,
                c_quantity = ''1'', c_mode = ''Card''\<rparr>"

definition undated :: client_expense where
  "undated = \<lparr>c_id = ''65a5'', c_date = ''soon'', c_item = ''Milk'', c_amount = JNum (Fin 20),
              c_quantity = ''1'', c_mode = ''Cash''\<rparr>"

section \<open>The store under \<open>save\<close>\<close>

lemma find_map_same_id:
  assumes "\<And>u. u_id (f u) = u_id u"
  shows "find (\<lambda>u. u_id u = i) (map f xs) = map_option f (find (\<lambda>u. u_id u = i) xs)"
  using assms by (induction xs) auto

lemma pre_save_id: "d_id (pre_save rt d) = d_id d"
  by (simp add: pre_save_def)

lemma findById_save:
  assumes "save rt s d = Some s'"
  shows "findById s' j =
    map_option (\<lambda>u. if u_id u = d_id d then write_paths (pre_save rt d) u else u) (findById s j)"
proof -
  have ids: "\<And>u. u_id (if u_id u = d_id d then write_paths (pre_save rt d) u else u) = u_id u"
    by (simp add: write_paths_def)
  from assms have "users s' =
      map (\<lambda>u. if u_id u = d_id d then write_paths (pre_save rt d) u else u) (users s)"
    by (auto simp: save_def Let_def pre_save_id split: if_splits)
  then show ?thesis
    unfolding findById_def by (simp only: find_map_same_id [OF ids])
qed

lemma save_expenses: "save rt s d = Some s' \<Longrightarrow> expenses s' = expenses s"
  by (auto simp: save_def Let_def split: if_splits)

lemma save_passwords:
  assumes "save rt s d = Some s'" and "\<not> isModified d ''password''"
  shows "map password (users s') = map password (users s)"
  using assms by (auto simp: save_def Let_def pre_save_def write_paths_def split: if_splits)

lemma findById_id: "findById s i = Some acc \<Longrightarrow> u_id acc = i"
  by (auto simp: findById_def find_Some_iff)

lemma set_totalBudget_password:
  "isModified (set_totalBudget rt d v) ''password'' = isModified d ''password''"
  by (auto simp: set_totalBudget_def isModified_def split: option.splits)

lemma loaded_password: "\<not> isModified (select_no_password acc) ''password''"
  by (simp add: select_no_password_def isModified_def)

lemma set_totalBudget_cast:
  assumes "castNumber rt v = Some w"
  shows "d_totalBudget (set_totalBudget rt d v) = w"
    and "castErrors (set_totalBudget rt d v) = castErrors d"
    and "d_id (set_totalBudget rt d v) = d_id d"
    and "isModified (set_totalBudget rt d v) ''totalBudget'' \<or> d_totalBudget d = w"
  using assms by (auto simp: set_totalBudget_def isModified_def)

text \<open>Saving a budget that casts: the account's total is the cast value, every other
  account and every expense is as before.\<close>

lemma budget_after_save:
  assumes "findById s i = Some acc" and "castNumber rt v = Some w"
  shows "\<exists>s'. save rt s (set_totalBudget rt (select_no_password acc) v) = Some s'
     \<and> budget_of s' i = Some w \<and> (\<forall>j. j \<noteq> i \<longrightarrow> findById s' j = findById s j)
     \<and> expenses s' = expenses s"
proof -
  let ?d = "set_totalBudget rt (select_no_password acc) v"
  have ce: "castErrors ?d = []" and di: "d_id ?d = u_id acc" and tb: "d_totalBudget ?d = w"
    and md: "isModified ?d ''totalBudget'' \<or> totalBudget acc = w"
    using set_totalBudget_cast [OF assms(2), of "select_no_password acc"]
    by (simp_all add: select_no_password_def)
  have np: "\<not> isModified ?d ''password''"
    by (simp add: set_totalBudget_password loaded_password)
  have ia: "u_id acc = i"
    using assms(1) by (rule findById_id)
  obtain s' where sv: "save rt s ?d = Some s'"
    using ce by (simp add: save_def Let_def)
  have ps: "pre_save rt ?d = ?d"
    using np by (simp add: pre_save_def)
  have "budget_of s' i = Some w"
    using md np
    by (auto simp: budget_of_def findById_save [OF sv] assms(1) di ia ps write_paths_def tb)
  moreover have "\<forall>j. j \<noteq> i \<longrightarrow> findById s' j = findById s j"
  proof (intro allI impI)
    fix j assume "j \<noteq> i"
    show "findById s' j = findById s j"
    proof (cases "findById s j")
      case None
      then show ?thesis by (simp add: findById_save [OF sv])
    next
      case (Some x)
      then have "u_id x = j" by (rule findById_id)
      with \<open>j \<noteq> i\<close> Some show ?thesis by (simp add: findById_save [OF sv] di ia)
    qed
  qed
  ultimately show ?thesis using sv save_expenses [OF sv] by blast
qed

section \<open>Budget routes: what the guards let through\<close>

lemma put_budget_set_accepted:
  assumes "findById s i = Some acc" and "castNumber rt v = Some w"
    and "v \<noteq> JUndefined" and "\<not> isNaN rt v" and "\<not> js_lt rt v (JNum (Fin 0))"
  shows "snd (api_budget_set rt s (Token i) v) = Inr w"
    and "budget_of (fst (api_budget_set rt s (Token i) v)) i = Some w"
proof -
  obtain s' where sv: "save rt s (set_totalBudget rt (select_no_password acc) v) = Some s'"
    and b: "budget_of s' i = Some w"
    using budget_after_save [OF assms(1,2)] by blast
  have "api_budget_set rt s (Token i) v = (s', Inr w)"
    using assms sv set_totalBudget_cast(1) [OF assms(2)]
    by (simp add: api_budget_set_def route_def put_budget_set_def Let_def)
  then show "snd (api_budget_set rt s (Token i) v) = Inr w"
    and "budget_of (fst (api_budget_set rt s (Token i) v)) i = Some w"
    using b by simp_all
qed

lemma put_budget_set_rejected:
  assumes "v = JUndefined \<or> isNaN rt v \<or> js_lt rt v (JNum (Fin 0))"
  shows "put_budget_set rt s u v = (s, Inl (ValidationError ''Please provide a valid budget amount.''))"
  using assms by (auto simp: put_budget_set_def)

text \<open>On numbers the two budget routes do what their guards announce: a negative
  amount is refused by \<open>set\<close> and an amount that is not above 0 by \<open>add\<close>, the store staying
  as it was; otherwise \<open>set\<close> replaces the total by the amount and \<open>add\<close> replaces a total
  that is a number by the double that the sum of total and amount rounds to.\<close>

lemma put_budget_set_number:
  assumes "findById s i = Some acc" and "0 \<le> r"
  shows "snd (api_budget_set rt s (Token i) (JNum (Fin r))) = Inr (JNum (Fin r))"
    and "budget_of (fst (api_budget_set rt s (Token i) (JNum (Fin r)))) i = Some (JNum (Fin r))"
  using put_budget_set_accepted [OF assms(1), of rt "JNum (Fin r)" "JNum (Fin r)"] assms(2)
  by (simp_all add: isNaN_def)

lemma put_budget_set_negative:
  assumes "r < 0"
  shows "put_budget_set rt s u (JNum (Fin r))
    = (s, Inl (ValidationError ''Please provide a valid budget amount.''))"
  using assms by (simp add: put_budget_set_rejected)

lemma put_budget_add_rejected:
  assumes "v = JUndefined \<or> isNaN rt v \<or> js_le rt v (JNum (Fin 0))"
  shows "put_budget_add rt s u v = (s, Inl (ValidationError ''Please provide a valid amount to add.''))"
  using assms by (auto simp: put_budget_add_def)

lemma put_budget_add_number:
  assumes "findById s i = Some acc" and "totalBudget acc = JNum (Fin b)" and "0 < r"
    and "roundDouble rt (b + r) = Fin t"
  shows "snd (api_budget_add rt s (Token i) (JNum (Fin r))) = Inr (JNum (Fin t))"
    and "budget_of (fst (api_budget_add rt s (Token i) (JNum (Fin r)))) i = Some (JNum (Fin t))"
proof -
  let ?v = "js_plus rt (d_totalBudget (select_no_password acc)) (JNum (Fin r))"
  have v: "?v = JNum (Fin t)"
    using assms(2,4) by (simp add: select_no_password_def)
  have c: "castNumber rt ?v = Some (JNum (Fin t))"
    by (simp add: v)
  obtain s' where sv: "save rt s (set_totalBudget rt (select_no_password acc) ?v) = Some s'"
    and bd: "budget_of s' i = Some (JNum (Fin t))"
    using budget_after_save [OF assms(1) c] by blast
  have "api_budget_add rt s (Token i) (JNum (Fin r)) = (s', Inr (JNum (Fin t)))"
    using assms(1,3) sv set_totalBudget_cast(1) [OF c]
    by (simp add: api_budget_add_def route_def put_budget_add_def Let_def isNaN_def num_le_def)
  then show "snd (api_budget_add rt s (Token i) (JNum (Fin r))) = Inr (JNum (Fin t))"
    and "budget_of (fst (api_budget_add rt s (Token i) (JNum (Fin r)))) i = Some (JNum (Fin t))"
    using bd by simp_all
qed

text \<open>
  Claim C10. The guard of \<open>PUT /api/budget/set\<close> counts only \<open>undefined\<close> as a missing
  amount. \<open>null\<close> is not \<open>NaN\<close> for \<open>isNaN\<close> and is not below 0, so the guard lets it
  through and \<open>null\<close> is written as the account's budget total; a non-empty string that
  denotes a number \<open>r \<ge> 0\<close>, such as \<open>"5"\<close>, is let through as well and the total becomes
  \<open>r\<close>. Neither is answered with the validation error.
\<close>

theorem budget_set_guard_passes_null_and_numeric_strings:
  assumes "findById s i = Some acc"
    and "strToNum rt str = Fin r" and "0 \<le> r" and "str \<noteq> []"
  shows "snd (api_budget_set rt s (Token i) JUndefined)
           = Inl (ValidationError ''Please provide a valid budget amount.'')
       \<and> \<not> isNaN rt JNull \<and> \<not> js_lt rt JNull (JNum (Fin 0))
       \<and> snd (api_budget_set rt s (Token i) JNull) = Inr JNull
       \<and> budget_of (fst (api_budget_set rt s (Token i) JNull)) i = Some JNull
       \<and> snd (api_budget_set rt s (Token i) (JStr str)) = Inr (JNum (Fin r))
       \<and> budget_of (fst (api_budget_set rt s (Token i) (JStr str))) i = Some (JNum (Fin r))"
proof -
  have "snd (api_budget_set rt s (Token i) JUndefined)
           = Inl (ValidationError ''Please provide a valid budget amount.'')"
    using assms(1) by (simp add: api_budget_set_def route_def put_budget_set_rejected)
  moreover have "\<not> isNaN rt JNull \<and> \<not> js_lt rt JNull (JNum (Fin 0))"
    by (simp add: isNaN_def)
  moreover have "snd (api_budget_set rt s (Token i) JNull) = Inr JNull
      \<and> budget_of (fst (api_budget_set rt s (Token i) JNull)) i = Some JNull"
    using put_budget_set_accepted [OF assms(1), of rt JNull JNull]
    by (simp add: isNaN_def)
  moreover have "snd (api_budget_set rt s (Token i) (JStr str)) = Inr (JNum (Fin r))
      \<and> budget_of (fst (api_budget_set rt s (Token i) (JStr str))) i = Some (JNum (Fin r))"
    using put_budget_set_accepted [OF assms(1), of rt "JStr str" "JNum (Fin r)"] assms(2-4)
    by (simp add: isNaN_def)
  ultimately show ?thesis by simp
qed

theorem budget_set_guard_passes_null_and_numeric_strings_witness:
  "snd (api_budget_set example_rt store0 (Token 1) JUndefined)
           = Inl (ValidationError ''Please provide a valid budget amount.'')
       \<and> snd (api_budget_set example_rt store0 (Token 1) JNull) = Inr JNull
       \<and> budget_of (fst (api_budget_set example_rt store0 (Token 1) JNull)) 1 = Some JNull
       \<and> snd (api_budget_set example_rt store0 (Token 1) (JStr ''5'')) = Inr (JNum (Fin 5))
       \<and> budget_of (fst (api_budget_set example_rt store0 (Token 1) (JStr ''5''))) 1 = Some (JNum (Fin 5))"
  using budget_set_guard_passes_null_and_numeric_strings [of store0 1 alice example_rt "''5''" 5]
  by (simp add: findById_def store0_def alice_def example_rt_def)

text \<open>
  Claim C4. \<open>setBudget\<close> is stated to fail with a validation error, leaving the stored
  total as it was, when the amount is not a number. The handler does otherwise for the
  body \<open>{"amount": null}\<close>: for the account of the example, whose total is 10, the
  response is a success carrying \<open>null\<close> and the stored total is \<open>null\<close>.
\<close>

theorem budget_set_null_overwrites_total:
  "api_budget_set example_rt store0 (Token 1) JNull =
     (store0\<lparr>users := [alice\<lparr>totalBudget := JNull\<rparr>, bob]\<rparr>, Inr JNull)"
  by (simp add: api_budget_set_def route_def findById_def store0_def alice_def bob_def
      select_no_password_def put_budget_set_def isNaN_def set_totalBudget_def save_def
      pre_save_def isModified_def write_paths_def Let_def)

text \<open>
  Claim C5. \<open>addToBudget\<close> is stated to reject an amount that is not a number and, for an
  amount above 0, to store the old total plus the amount. The handler does otherwise for
  the body \<open>{"amount": "5"}\<close>: the guard lets the string through, \<open>+=\<close> concatenates, and
  for the account of the example, whose total is 10, the stored and returned total is
  105.
\<close>

theorem budget_add_string_concatenates:
  "api_budget_add example_rt store0 (Token 1) (JStr ''5'') =
     (store0\<lparr>users := [alice\<lparr>totalBudget := JNum (Fin 105)\<rparr>, bob]\<rparr>, Inr (JNum (Fin 105)))"
  by (simp add: api_budget_add_def route_def findById_def store0_def alice_def bob_def
      select_no_password_def put_budget_add_def isNaN_def set_totalBudget_def save_def
      pre_save_def isModified_def write_paths_def Let_def example_rt_def num_le_def)

section \<open>The password under the budget operations\<close>

lemma put_budget_set_passwords:
  "map password (users (fst (put_budget_set rt s (select_no_password acc) v))) = map password (users s)"
  by (auto simp: put_budget_set_def Let_def set_totalBudget_password loaded_password
      split: option.splits dest!: save_passwords)

lemma put_budget_add_passwords:
  "map password (users (fst (put_budget_add rt s (select_no_password acc) v))) = map password (users s)"
  by (auto simp: put_budget_add_def Let_def set_totalBudget_password loaded_password
      split: option.splits dest!: save_passwords)

lemma deleteMany_users: "users (deleteMany s i) = users s"
  by (simp add: deleteMany_def)

lemma delete_expenses_passwords:
  "map password (users (fst (delete_expenses rt s (select_no_password acc)))) = map password (users s)"
  by (auto simp: delete_expenses_def Let_def set_totalBudget_password loaded_password deleteMany_users
      split: option.splits dest!: save_passwords)

lemma route_passwords:
  assumes "\<And>acc. map password (users (fst (handler s (select_no_password acc)))) = map password (users s)"
  shows "map password (users (fst (route handler s tok))) = map password (users s)"
  using assms by (cases tok) (auto simp: route_def split: option.splits)

lemma pre_save_loaded:
  "pre_save rt (set_totalBudget rt (select_no_password acc) v) = set_totalBudget rt (select_no_password acc) v"
  by (simp add: pre_save_def set_totalBudget_password loaded_password)

text \<open>
  Claim C9. The document that a budget operation saves is the one the middleware loaded
  without its password, with only \<open>totalBudget\<close> assigned; \<open>isModified('password')\<close> is
  false for it, so the hook \<open>pre('save')\<close> returns it as it is and hashes nothing. Hence
  \<open>PUT /api/budget/set\<close>, \<open>PUT /api/budget/add\<close> and \<open>DELETE /api/expenses\<close> leave the
  stored password hash of every account as it was, whatever the token and the amount.
\<close>

theorem budget_operations_keep_password:
  "pre_save rt (set_totalBudget rt (select_no_password acc) v)
      = set_totalBudget rt (select_no_password acc) v
   \<and> map password (users (fst (api_budget_set rt s tok amt))) = map password (users s)
   \<and> map password (users (fst (api_budget_add rt s tok amt))) = map password (users s)
   \<and> map password (users (fst (api_delete_expenses rt s tok))) = map password (users s)"
  unfolding api_budget_set_def api_budget_add_def api_delete_expenses_def
  by (intro conjI route_passwords pre_save_loaded put_budget_set_passwords
      put_budget_add_passwords delete_expenses_passwords)

theorem budget_operations_keep_password_witness:
  "map password (users (fst (api_budget_set example_rt store0 (Token 1) (JNum (Fin 50)))))
      = [''$2a$12$secret1'', ''$2a$12$secret2'']
   \<and> map password (users (fst (api_budget_add example_rt store0 (Token 1) (JNum (Fin 50)))))
      = [''$2a$12$secret1'', ''$2a$12$secret2'']
   \<and> map password (users (fst (api_delete_expenses example_rt store0 (Token 1))))
      = [''$2a$12$secret1'', ''$2a$12$secret2'']"
  using budget_operations_keep_password [of example_rt alice JNull store0 "Token 1" "JNum (Fin 50)"]
  by (simp add: store0_def alice_def bob_def)

section \<open>Clearing\<close>

lemma ledger_deleteMany: "ledger (deleteMany s i) j = (if j = i then [] else ledger s j)"
  by (auto simp: ledger_def deleteMany_def filter_empty_conv intro: filter_cong)

lemma findById_deleteMany: "findById (deleteMany s i) j = findById s j"
  by (simp add: findById_def deleteMany_def)

text \<open>
  Claim C1, as amended. \<open>DELETE /api/expenses\<close> for an authenticated account is two store
  operations, one after the other: all expenses of the account are deleted, then its
  budget total is saved as 0. When the handler answers, the account has no expense and
  the total 0, and the expenses and the record of every other account are as before.
  Between the two operations the store is in the state \<open>s1\<close>: the expenses of the account
  are gone and every budget total, that of the account too, is still the old one.
\<close>

theorem clear_is_two_store_operations:
  assumes "findById s i = Some acc"
  shows "\<exists>s1 s2. delete_expenses_states rt s (select_no_password acc) = [s, s1, s2]
     \<and> api_delete_expenses rt s (Token i) = (s2, Inr ''All data cleared.'')
     \<and> ledger s1 i = [] \<and> users s1 = users s
     \<and> ledger s2 i = [] \<and> budget_of s2 i = Some (JNum (Fin 0))
     \<and> (\<forall>j. j \<noteq> i \<longrightarrow> ledger s2 j = ledger s j \<and> findById s2 j = findById s j)"
proof -
  let ?s1 = "deleteMany s i"
  have ia: "u_id acc = i" using assms by (rule findById_id)
  have f1: "findById ?s1 i = Some acc" using assms by (simp add: findById_deleteMany)
  have c0: "castNumber rt (JNum (Fin 0)) = Some (JNum (Fin 0))" by simp
  obtain s2 where sv: "save rt ?s1 (set_totalBudget rt (select_no_password acc) (JNum (Fin 0))) = Some s2"
    and b: "budget_of s2 i = Some (JNum (Fin 0))"
    and o: "\<forall>j. j \<noteq> i \<longrightarrow> findById s2 j = findById ?s1 j"
    and e: "expenses s2 = expenses ?s1"
    using budget_after_save [OF f1 c0] by blast
  have di: "d_id (select_no_password acc) = i" using ia by (simp add: select_no_password_def)
  have l2: "ledger s2 j = ledger ?s1 j" for j using e by (simp add: ledger_def)
  have "delete_expenses_states rt s (select_no_password acc) = [s, ?s1, s2]"
    using sv by (simp add: delete_expenses_states_def Let_def di)
  moreover have "api_delete_expenses rt s (Token i) = (s2, Inr ''All data cleared.'')"
    using sv assms by (simp add: api_delete_expenses_def route_def delete_expenses_def Let_def di)
  moreover have "ledger ?s1 i = []" "users ?s1 = users s" "ledger s2 i = []"
    by (simp_all add: l2 ledger_deleteMany deleteMany_users)
  moreover have "\<forall>j. j \<noteq> i \<longrightarrow> ledger s2 j = ledger s j \<and> findById s2 j = findById s j"
    using o by (simp add: l2 ledger_deleteMany findById_deleteMany)
  ultimately show ?thesis using b by blast
qed

theorem clear_is_two_store_operations_witness:
  "\<exists>s1 s2. delete_expenses_states example_rt store0 (select_no_password alice) = [store0, s1, s2]
     \<and> api_delete_expenses example_rt store0 (Token 1) = (s2, Inr ''All data cleared.'')
     \<and> ledger s1 1 = [] \<and> users s1 = [alice, bob]
     \<and> ledger s2 1 = [] \<and> budget_of s2 1 = Some (JNum (Fin 0))
     \<and> ledger s2 2 = [rice] \<and> findById s2 2 = Some bob"
proof -
  have f: "findById store0 1 = Some alice"
    by (simp add: findById_def store0_def alice_def)
  have r: "ledger store0 2 = [rice]" "findById store0 2 = Some bob" "users store0 = [alice, bob]"
    by (simp_all add: ledger_def findById_def store0_def alice_def bob_def tea_def rice_def)
  from clear_is_two_store_operations [OF f, of example_rt]
  obtain s1 s2 where
    st: "delete_expenses_states example_rt store0 (select_no_password alice) = [store0, s1, s2]"
    and res: "api_delete_expenses example_rt store0 (Token 1) = (s2, Inr ''All data cleared.'')"
    and l: "ledger s1 1 = []" "users s1 = users store0" "ledger s2 1 = []"
      "budget_of s2 1 = Some (JNum (Fin 0))"
    and o: "\<forall>j. j \<noteq> 1 \<longrightarrow> ledger s2 j = ledger store0 j \<and> findById s2 j = findById store0 j"
    by blast
  from o have "ledger s2 2 = ledger store0 2 \<and> findById s2 2 = findById store0 2"
    by simp
  with st res l r show ?thesis by simp
qed

text \<open>
  Claim C1 as stated fails: a request served between the two operations of the handler
  reads a store in which the account's expenses are gone and its budget is still 10.
\<close>

theorem clear_intermediate_state_observable:
  "ledger store0 1 = [tea]
   \<and> ledger (delete_expenses_states example_rt store0 (select_no_password alice) ! 1) 1 = []
   \<and> budget_of (delete_expenses_states example_rt store0 (select_no_password alice) ! 1) 1
       = Some (JNum (Fin 10))"
  by (simp add: delete_expenses_states_def Let_def ledger_def budget_of_def findById_def
      deleteMany_def store0_def alice_def bob_def tea_def rice_def select_no_password_def)

section \<open>Removing one expense\<close>

lemma findOneAndDelete_None:
  "findOneAndDelete i uid es = None \<longleftrightarrow> (\<forall>e \<in> set es. \<not> (e_id e = i \<and> userId e = uid))"
  by (induction es) auto

lemma findOneAndDelete_own:
  assumes "distinct (map e_id es)" and "x \<in> set es" and "userId x = uid"
  shows "findOneAndDelete (e_id x) uid es = Some (x, remove1 x es)"
  using assms by (induction es) (auto simp: image_iff)

lemma findOneAndDelete_foreign:
  assumes "distinct (map e_id es)" and "e \<in> set es" and "userId e \<noteq> uid"
  shows "findOneAndDelete (e_id e) uid es = None"
  unfolding findOneAndDelete_None using assms
  by (metis distinct_map inj_on_def)

lemma api_delete_expense_found:
  assumes "findById s a = Some acc"
  shows "api_delete_expense s (Token a) (Some k) =
    (case findOneAndDelete k a (expenses s) of
       None \<Rightarrow> (s, Inl (NotFoundError ''Expense not found.''))
     | Some (e, rest) \<Rightarrow> (s\<lparr>expenses := rest\<rparr>, Inr ''Expense deleted.''))"
  using assms findById_id [OF assms]
  by (simp add: api_delete_expense_def route_def delete_expense_def select_no_password_def)

text \<open>
  Claim C7. In a store whose expenses have distinct \<open>_id\<close>s, let the account \<open>a\<close> be
  authenticated and let \<open>e\<close> be an expense owned by another account \<open>b\<close>. Removing \<open>e\<close>'s id
  as \<open>a\<close> is answered with the not-found error and the store, hence the ledger of \<open>a\<close> and
  that of \<open>b\<close>, is exactly as before. A removal by \<open>a\<close> succeeds only for an id of an
  expense that \<open>a\<close> owns, and then that expense, and nothing else, is deleted.
\<close>

theorem delete_expense_scoped_to_owner:
  assumes "findById s a = Some acc" and "distinct (map e_id (expenses s))"
    and "e \<in> set (expenses s)" and "userId e = b" and "a \<noteq> b"
  shows "api_delete_expense s (Token a) (Some (e_id e))
           = (s, Inl (NotFoundError ''Expense not found.''))
       \<and> ((\<exists>m. snd (api_delete_expense s (Token a) (Some k)) = Inr m)
            \<longleftrightarrow> (\<exists>y \<in> set (expenses s). e_id y = k \<and> userId y = a))
       \<and> (\<forall>y \<in> set (expenses s). userId y = a \<longrightarrow>
             api_delete_expense s (Token a) (Some (e_id y))
               = (s\<lparr>expenses := remove1 y (expenses s)\<rparr>, Inr ''Expense deleted.''))"
proof (intro conjI ballI impI)
  have "userId e \<noteq> a" using assms(4,5) by simp
  then show "api_delete_expense s (Token a) (Some (e_id e))
           = (s, Inl (NotFoundError ''Expense not found.''))"
    by (simp add: api_delete_expense_found [OF assms(1)] findOneAndDelete_foreign [OF assms(2,3)])
next
  show "(\<exists>m. snd (api_delete_expense s (Token a) (Some k)) = Inr m)
            \<longleftrightarrow> (\<exists>y \<in> set (expenses s). e_id y = k \<and> userId y = a)"
    using findOneAndDelete_None [of k a "expenses s"]
    by (auto simp: api_delete_expense_found [OF assms(1)] split: option.splits)
next
  fix y assume "y \<in> set (expenses s)" "userId y = a"
  then show "api_delete_expense s (Token a) (Some (e_id y))
               = (s\<lparr>expenses := remove1 y (expenses s)\<rparr>, Inr ''Expense deleted.'')"
    by (simp add: api_delete_expense_found [OF assms(1)] findOneAndDelete_own [OF assms(2)])
qed

theorem delete_expense_scoped_to_owner_witness:
  "api_delete_expense store0 (Token 1) (Some 8) = (store0, Inl (NotFoundError ''Expense not found.''))
   \<and> api_delete_expense store0 (Token 1) (Some 7)
       = (store0\<lparr>expenses := [rice]\<rparr>, Inr ''Expense deleted.'')"
proof -
  have f: "findById store0 1 = Some alice"
    by (simp add: findById_def store0_def alice_def)
  have d: "distinct (map e_id (expenses store0))"
    by (simp add: store0_def tea_def rice_def)
  have r: "rice \<in> set (expenses store0)" "userId rice = 2" "(1::nat) \<noteq> 2" "e_id rice = 8"
    and t: "tea \<in> set (expenses store0)" "userId tea = 1" "e_id tea = 7"
      "remove1 tea (expenses store0) = [rice]"
    by (simp_all add: store0_def tea_def rice_def)
  from delete_expense_scoped_to_owner [OF f d r(1-3), of 7] r(4) t
  show ?thesis by auto
qed

section \<open>Signup: conflicts\<close>

text \<open>A request that passes the field checks and whose name or email is taken is
  answered with a conflict, and the store is left as it was, whichever account the
  lookup returns.\<close>

lemma signup_conflict_store_unchanged:
  assumes "field_checks_pass rt body" and "already_taken rt s body"
  shows "\<exists>m. post_auth_signup rt s body now new_id = (s, Inl (ConflictError m))"
proof -
  obtain x where "findOne_email_or_username rt s (b_email body) (b_username body) = Some x"
    using assms(2) unfolding already_taken_def findOne_email_or_username_def
    by (cases "find (\<lambda>u. Some (email u) = set_email rt (b_email body)
                 \<or> Some (username u) = set_username rt (b_username body)) (users s)")
       (auto simp: find_None_iff)
  then show ?thesis
    using assms(1) by (auto simp: field_checks_pass_def post_auth_signup_def)
qed

text \<open>The conflict named is decided by comparing the stored email of the account found
  with the email as the request wrote it: when no stored email is written that way, the
  name conflict is reported, whichever account the lookup returns.\<close>

lemma signup_reports_name_when_raw_email_differs:
  assumes "field_checks_pass rt body" and "already_taken rt s body"
    and "\<forall>u \<in> set (users s). JStr (email u) \<noteq> b_email body"
  shows "post_auth_signup rt s body now new_id
    = (s, Inl (ConflictError ''Username already taken.''))"
proof -
  obtain x where f: "findOne_email_or_username rt s (b_email body) (b_username body) = Some x"
    using assms(2) unfolding already_taken_def findOne_email_or_username_def
    by (cases "find (\<lambda>u. Some (email u) = set_email rt (b_email body)
                 \<or> Some (username u) = set_username rt (b_username body)) (users s)")
       (auto simp: find_None_iff)
  then have "x \<in> set (users s)"
    by (auto simp: findOne_email_or_username_def find_Some_iff)
  with assms(3) have "JStr (email x) \<noteq> b_email body" by blast
  with f show ?thesis
    using assms(1) by (simp add: field_checks_pass_def post_auth_signup_def)
qed

text \<open>
  Claim C6. \<open>register\<close> is stated to report the email conflict first when both the name
  and the email of a request are taken. The handler does otherwise for the request with
  the name \<open>alice\<close> and the email \<open>A@X.com\<close>, when one stored account has the name \<open>alice\<close>
  and the email \<open>a@x.com\<close>: the lookup, which lower-cases the email, finds that account,
  its stored email is compared with the email as written, and the name conflict is
  reported. The order of the accounts in the store makes no difference, and the same
  answer is given when the name, \<open>carol\<close>, is free and only the email is taken.
\<close>

theorem signup_mixed_case_email_reports_name:
  "post_auth_signup example_rt store0
       \<lparr>b_username = JStr ''alice'', b_email = JStr ''A@X.com'', b_password = JStr ''secret9''\<rparr> 9 3
     = (store0, Inl (ConflictError ''Username already taken.''))
   \<and> post_auth_signup example_rt (store0\<lparr>users := [bob, alice]\<rparr>)
       \<lparr>b_username = JStr ''alice'', b_email = JStr ''A@X.com'', b_password = JStr ''secret9''\<rparr> 9 3
     = (store0\<lparr>users := [bob, alice]\<rparr>, Inl (ConflictError ''Username already taken.''))
   \<and> post_auth_signup example_rt store0
       \<lparr>b_username = JStr ''carol'', b_email = JStr ''A@X.com'', b_password = JStr ''secret9''\<rparr> 9 3
     = (store0, Inl (ConflictError ''Username already taken.''))"
  by (simp add: post_auth_signup_def findOne_email_or_username_def store0_def alice_def bob_def
      set_email_def set_username_def example_rt_def)

theorem signup_mixed_case_email_reports_name_witness:
  "fst (post_auth_signup example_rt store0
          \<lparr>b_username = JStr ''alice'', b_email = JStr ''A@X.com'', b_password = JStr ''secret9''\<rparr> 9 3)
     = store0
   \<and> snd (post_auth_signup example_rt store0
          \<lparr>b_username = JStr ''alice'', b_email = JStr ''A@X.com'', b_password = JStr ''secret9''\<rparr> 9 3)
     = Inl (ConflictError ''Username already taken.'')"
  using signup_mixed_case_email_reports_name by simp

section \<open>Adding an expense\<close>

text \<open>The validation error of \<open>POST /api/expenses\<close> is sent exactly when one of the five
  fields is falsy; a created record carries the generated \<open>_id\<close>, the creation time, the
  caller as owner and \<open>parseFloat(amount)\<close> as amount, and is appended to the store.\<close>

lemma post_expenses_validation:
  "snd (post_expenses rt s u body now new_id) = Inl (ValidationError ''All fields are required.'')
   \<longleftrightarrow> (\<not> truthy (b_date body) \<or> \<not> truthy (b_item body) \<or> \<not> truthy (b_amount body)
        \<or> \<not> truthy (b_quantity body) \<or> \<not> truthy (b_mode body))"
  by (auto simp: post_expenses_def split: option.splits)

lemma api_post_expenses_created:
  assumes "api_post_expenses rt s (Token i) body now new_id = (s', Inr e)"
  shows "expenses s' = expenses s @ [e]" and "users s' = users s" and "userId e = i"
    and "castString rt (b_date body) = Some (date e)" and "createdAt e = now"
    and "e_id e = new_id" and "amount e = parseFloat rt (b_amount body)"
proof -
  obtain acc where f: "findById s i = Some acc"
    using assms by (auto simp: api_post_expenses_def route_def split: option.splits)
  have p: "post_expenses rt s (select_no_password acc) body now new_id = (s', Inr e)"
    using assms f by (simp add: api_post_expenses_def route_def)
  have "d_id (select_no_password acc) = i"
    using findById_id [OF f] by (simp add: select_no_password_def)
  with p show "expenses s' = expenses s @ [e]" and "users s' = users s" and "userId e = i"
    and "castString rt (b_date body) = Some (date e)" and "createdAt e = now"
    and "e_id e = new_id" and "amount e = parseFloat rt (b_amount body)"
    by (auto simp: post_expenses_def new_expense_def
        split: option.splits if_splits jsval.splits)
qed

text \<open>
  Claim C2. \<open>add\<close> is stated to fail with a validation error only when one of the five
  fields is missing from the request. The handler does otherwise for a request that has
  all five fields and the amount 0: \<open>!amount\<close> is true for 0, the response is the
  validation error \<open>All fields are required.\<close> and nothing is stored.
\<close>

theorem add_expense_rejects_zero_amount:
  "api_post_expenses example_rt store0 (Token 1)
      \<lparr>b_date = JStr ''2024-01-05'', b_item = JStr ''Tea'', b_amount = JNum (Fin 0),
       b_quantity = JStr ''1'', b_mode = JStr ''Cash''\<rparr> 9 10
    = (store0, Inl (ValidationError ''All fields are required.''))"
  by (simp add: api_post_expenses_def route_def findById_def store0_def alice_def
      post_expenses_def)

section \<open>Listing\<close>

lemma insort_key_pair:
  fixes f :: "'a \<Rightarrow> 'b::linorder" and g :: "'a \<Rightarrow> 'c::linorder"
  assumes "\<forall>y \<in> set ys. g x \<le> g y"
  shows "insort_key (\<lambda>e. (f e, g e)) x ys = insort_key f x ys"
  using assms by (induction ys) (auto simp: less_eq_prod_def)

text \<open>On a list that is in the order of the second key, sorting by the pair is the
  stable sort by the first key.\<close>

lemma sort_key_pair:
  fixes f :: "'a \<Rightarrow> 'b::linorder" and g :: "'a \<Rightarrow> 'c::linorder"
  assumes "sorted (map g xs)"
  shows "sort_key (\<lambda>e. (f e, g e)) xs = sort_key f xs"
  using assms
proof (induction xs)
  case Nil
  then show ?case by simp
next
  case (Cons x xs)
  then have "\<forall>y \<in> set (sort_key f xs). g x \<le> g y" by simp
  with Cons show ?case by (simp add: insort_key_pair)
qed

lemma api_get_expenses_found:
  assumes "findById s i = Some acc"
  shows "api_get_expenses s (Token i)
    = (s, Inr (sort_key (\<lambda>e. (date e, createdAt e)) (ledger s i)))"
  using assms findById_id [OF assms]
  by (simp add: api_get_expenses_def route_def get_expenses_def ledger_def select_no_password_def)

lemma jan02_before_jan10: "''2024-01-02'' < ''2024-01-10''"
  by (simp add: less_char_def)

text \<open>
  Claim C3. For an authenticated account, \<open>list\<close> returns exactly the expenses the store
  holds for that account, in ascending order of the stored date and, for equal dates, of
  the creation time; when the store holds the account's expenses in the order of their
  creation times, that is the stable sort by date of the expenses in creation order. In
  particular, when an account without expenses adds an expense dated \<open>2024-01-10\<close> and
  then one dated \<open>2024-01-02\<close>, \<open>list\<close> returns the second record first.
\<close>

theorem list_expenses_by_date_then_creation:
  assumes "findById s i = Some acc"
  shows "(\<exists>es. api_get_expenses s (Token i) = (s, Inr es)
            \<and> mset es = mset (ledger s i)
            \<and> sorted (map (\<lambda>e. (date e, createdAt e)) es)
            \<and> (sorted (map createdAt (ledger s i)) \<longrightarrow> es = sort_key date (ledger s i)))
       \<and> (ledger s i = []
            \<and> api_post_expenses rt s (Token i) body1 now1 id1 = (s1, Inr e1)
            \<and> b_date body1 = JStr ''2024-01-10''
            \<and> api_post_expenses rt s1 (Token i) body2 now2 id2 = (s2, Inr e2)
            \<and> b_date body2 = JStr ''2024-01-02''
          \<longrightarrow> api_get_expenses s2 (Token i) = (s2, Inr [e2, e1]))"
proof -
  let ?es = "sort_key (\<lambda>e. (date e, createdAt e)) (ledger s i)"
  have "api_get_expenses s (Token i) = (s, Inr ?es)"
    using assms by (rule api_get_expenses_found)
  moreover have "mset ?es = mset (ledger s i)" by simp
  moreover have "sorted (map (\<lambda>e. (date e, createdAt e)) ?es)" by simp
  moreover have "sorted (map createdAt (ledger s i)) \<longrightarrow> ?es = sort_key date (ledger s i)"
    by (simp add: sort_key_pair)
  moreover have "api_get_expenses s2 (Token i) = (s2, Inr [e2, e1])"
    if empty: "ledger s i = []"
      and p1: "api_post_expenses rt s (Token i) body1 now1 id1 = (s1, Inr e1)"
      and p2: "api_post_expenses rt s1 (Token i) body2 now2 id2 = (s2, Inr e2)"
      and d1: "b_date body1 = JStr ''2024-01-10''" and d2: "b_date body2 = JStr ''2024-01-02''"
  proof -
    note c1 = api_post_expenses_created [OF p1]
    note c2 = api_post_expenses_created [OF p2]
    have d: "date e1 = ''2024-01-10''" "date e2 = ''2024-01-02''"
      using c1(4) c2(4) d1 d2 by simp_all
    have f2: "findById s2 i = Some acc"
      using assms c1(2) c2(2) by (simp add: findById_def)
    have "ledger s2 i = [e1, e2]"
      using empty c1(1,3) c2(1,3) by (simp add: ledger_def)
    then show ?thesis
      using jan02_before_jan10 by (simp add: api_get_expenses_found [OF f2] d less_eq_prod_def)
  qed
  ultimately show ?thesis by blast
qed

theorem list_expenses_by_date_then_creation_witness:
  "api_get_expenses (store0\<lparr>expenses := [rice]\<rparr>) (Token 1) = (store0\<lparr>expenses := [rice]\<rparr>, Inr [])
   \<and> api_get_expenses (store0\<lparr>expenses := [rice, jan10, jan02]\<rparr>) (Token 1)
     = (store0\<lparr>expenses := [rice, jan10, jan02]\<rparr>, Inr [jan02, jan10])"
proof -
  let ?s = "store0\<lparr>expenses := [rice]\<rparr>"
  let ?s1 = "store0\<lparr>expenses := [rice, jan10]\<rparr>"
  let ?s2 = "store0\<lparr>expenses := [rice, jan10, jan02]\<rparr>"
  have f: "findById ?s 1 = Some alice"
    by (simp add: findById_def store0_def alice_def)
  have p1: "api_post_expenses example_rt ?s (Token 1) jan10_body 100 11 = (?s1, Inr jan10)"
    by (simp add: api_post_expenses_def route_def findById_def store0_def alice_def
        post_expenses_def new_expense_def jan10_body_def jan10_def parseFloat_def
        example_rt_def select_no_password_def)
  have p2: "api_post_expenses example_rt ?s1 (Token 1) jan02_body 200 12 = (?s2, Inr jan02)"
    by (simp add: api_post_expenses_def route_def findById_def store0_def alice_def
        post_expenses_def new_expense_def jan02_body_def jan02_def parseFloat_def
        example_rt_def select_no_password_def)
  have d: "b_date jan10_body = JStr ''2024-01-10''" "b_date jan02_body = JStr ''2024-01-02''"
    by (simp_all add: jan10_body_def jan02_body_def)
  have l: "ledger ?s 1 = []"
    by (simp add: ledger_def store0_def rice_def)
  from list_expenses_by_date_then_creation
    [OF f, of example_rt jan10_body 100 11 ?s1 jan10 jan02_body 200 12 ?s2 jan02]
  show ?thesis
    using p1 p2 d l by auto
qed

section \<open>The client's table: order and running balance\<close>

lemma date_compare_consistent:
  assumes "\<forall>e \<in> set xs. parseDate rt (c_date e) \<noteq> None"
  shows "consistent_comparator (date_compare rt) xs"
  unfolding consistent_comparator_def
proof (intro ballI)
  fix a b c assume "a \<in> set xs" "b \<in> set xs" "c \<in> set xs"
  with assms have "parseDate rt (c_date a) \<noteq> None" "parseDate rt (c_date b) \<noteq> None"
    "parseDate rt (c_date c) \<noteq> None"
    by blast+
  then obtain ta tb tc where
    "parseDate rt (c_date a) = Some ta" "parseDate rt (c_date b) = Some tb"
    "parseDate rt (c_date c) = Some tc"
    by auto
  then show "date_compare rt a b \<noteq> NaN \<and> date_compare rt a a = Fin 0
      \<and> (date_compare rt a b = Fin 0 \<longrightarrow> date_compare rt b a = Fin 0)
      \<and> (date_compare rt a b = Fin 0 \<and> date_compare rt b c = Fin 0 \<longrightarrow> date_compare rt a c = Fin 0)
      \<and> (num_lt (date_compare rt a b) (Fin 0) \<and> num_lt (date_compare rt b c) (Fin 0)
           \<longrightarrow> num_lt (date_compare rt a c) (Fin 0))
      \<and> (num_lt (Fin 0) (date_compare rt a b) \<and> num_lt (Fin 0) (date_compare rt b c)
           \<longrightarrow> num_lt (Fin 0) (date_compare rt a c))"
    by (simp add: date_compare_def)
qed

lemma insert_by_date:
  assumes "parseDate rt (c_date x) \<noteq> None" and "\<forall>y \<in> set ys. parseDate rt (c_date y) \<noteq> None"
  shows "insert_by (date_compare rt) x ys = insort_key (time_value rt) x ys"
  using assms by (induction ys) (auto simp: date_compare_def time_value_def)

lemma foldr_insert_by_date:
  assumes "\<forall>e \<in> set xs. parseDate rt (c_date e) \<noteq> None"
  shows "foldr (insert_by (date_compare rt)) xs [] = sort_key (time_value rt) xs"
  using assms
proof (induction xs)
  case Nil
  then show ?case by simp
next
  case (Cons x xs)
  then have "foldr (insert_by (date_compare rt)) xs [] = sort_key (time_value rt) xs" by simp
  moreover have "\<forall>y \<in> set (sort_key (time_value rt) xs). parseDate rt (c_date y) \<noteq> None"
    using Cons.prems by simp
  ultimately show ?case
    using Cons.prems by (simp add: insert_by_date)
qed

text \<open>When every date is valid, the sort of \<open>updateTable\<close> is the stable sort by time
  value.\<close>

lemma js_sort_by_date:
  assumes "\<forall>e \<in> set xs. parseDate rt (c_date e) \<noteq> None"
  shows "js_sort (date_compare rt) xs = Some (sort_key (time_value rt) xs)"
  using assms by (simp add: js_sort_def date_compare_consistent foldr_insert_by_date)

text \<open>The rows of the walk, by position.\<close>

lemma rows_from_shown:
  "rows_from rt b xs = map (row_shown rt b xs) [0..<length xs]"
proof (induction xs arbitrary: b)
  case Nil
  then show ?case by simp
next
  case (Cons x xs)
  let ?b' = "num_sub rt b (parseFloat rt (c_amount x))"
  have shift: "row_shown rt ?b' xs k = row_shown rt b (x # xs) (Suc k)" for k
    by (simp add: row_shown_def running_balance_def)
  have "rows_from rt b (x # xs) = row_shown rt b (x # xs) 0 # rows_from rt ?b' xs"
    by (simp add: Let_def row_shown_def running_balance_def)
  also have "\<dots> = row_shown rt b (x # xs) 0 # map (\<lambda>k. row_shown rt b (x # xs) (Suc k)) [0..<length xs]"
    by (simp add: Cons.IH shift)
  also have "\<dots> = map (row_shown rt b (x # xs)) [0..<length (x # xs)]"
    by (simp add: map_upt_Suc del: upt_Suc)
  finally show ?case .
qed

text \<open>When the amounts are numbers and no subtraction of the walk rounds, the
  accumulator is the budget minus the sum of the amounts.\<close>

lemma running_balance_exact:
  assumes "\<forall>e \<in> set xs. \<exists>a. parseFloat rt (c_amount e) = Fin a"
    and "\<forall>k<length xs. roundDouble rt (b - (\<Sum>j\<le>k. amount_value rt (xs ! j)))
            = Fin (b - (\<Sum>j\<le>k. amount_value rt (xs ! j)))"
    and "k < length xs"
  shows "running_balance rt (Fin b) (take (Suc k) xs) = Fin (b - (\<Sum>j\<le>k. amount_value rt (xs ! j)))"
  using assms(3)
proof (induction k)
  case 0
  then obtain a where a: "parseFloat rt (c_amount (xs ! 0)) = Fin a"
    using assms(1) by (metis nth_mem)
  have "roundDouble rt (b - amount_value rt (xs ! 0)) = Fin (b - amount_value rt (xs ! 0))"
    using assms(2) 0 by fastforce
  moreover have "amount_value rt (xs ! 0) = a"
    by (simp add: amount_value_def a)
  moreover have "take (Suc 0) xs = [xs ! 0]"
    using 0 by (simp add: take_Suc_conv_app_nth)
  ultimately show ?case
    by (simp add: running_balance_def num_sub_def a)
next
  case (Suc k)
  then obtain a where a: "parseFloat rt (c_amount (xs ! Suc k)) = Fin a"
    using assms(1) by (metis nth_mem)
  have av: "amount_value rt (xs ! Suc k) = a"
    by (simp add: amount_value_def a)
  have ih: "running_balance rt (Fin b) (take (Suc k) xs)
      = Fin (b - (\<Sum>j\<le>k. amount_value rt (xs ! j)))"
    using Suc by simp
  have r: "roundDouble rt (b - (\<Sum>j\<le>Suc k. amount_value rt (xs ! j)))
      = Fin (b - (\<Sum>j\<le>Suc k. amount_value rt (xs ! j)))"
    using assms(2) Suc.prems by blast
  have t: "take (Suc (Suc k)) xs = take (Suc k) xs @ [xs ! Suc k]"
    using Suc.prems by (simp add: take_Suc_conv_app_nth)
  have "running_balance rt (Fin b) (take (Suc (Suc k)) xs)
      = num_sub rt (running_balance rt (Fin b) (take (Suc k) xs)) (Fin a)"
    unfolding t by (simp add: running_balance_def a)
  also have "\<dots> = roundDouble rt (b - (\<Sum>j\<le>k. amount_value rt (xs ! j)) + - a)"
    by (simp only: ih num_sub_def num_neg.simps num_add.simps)
  also have "b - (\<Sum>j\<le>k. amount_value rt (xs ! j)) + - a
      = b - (\<Sum>j\<le>Suc k. amount_value rt (xs ! j))"
    by (simp add: av)
  finally show ?case
    by (simp only: r)
qed

text \<open>
  Claim C8, as amended. Let every expense of the in-memory list have a valid date and
  let \<open>xs\<close> be the list sorted by date ascending (stably). On a page with the table,
  \<open>updateTable\<close> replaces the list by \<open>xs\<close> and shows one row for each expense of \<open>xs\<close>, in
  that order (for the empty list no row, only the placeholder). Row \<open>k\<close> carries the
  accumulator that starts as the budget and from which the amounts of the rows up to and
  including \<open>k\<close> have been subtracted one after the other in double arithmetic, and the row
  is flagged exactly when this accumulator is below 0. When moreover the budget and the
  amounts are numbers and none of these subtractions rounds, the accumulator of row \<open>k\<close>
  is the budget minus the sum of the amounts of the rows up to and including \<open>k\<close>.
\<close>

theorem updateTable_running_balance:
  assumes "\<forall>e \<in> set (c_expenses c). parseDate rt (c_date e) \<noteq> None"
    and "xs = sort_key (time_value rt) (c_expenses c)"
  shows "updateTable rt True c =
           Some (if c_expenses c = [] then (c, EmptyState)
                 else (c\<lparr>c_expenses := xs\<rparr>,
                       Rows (map (row_shown rt (c_totalBudget c) xs) [0..<length xs])))
       \<and> ((\<forall>e \<in> set xs. \<exists>a. parseFloat rt (c_amount e) = Fin a)
            \<and> c_totalBudget c = Fin budget
            \<and> (\<forall>k<length xs. roundDouble rt (budget - (\<Sum>j\<le>k. amount_value rt (xs ! j)))
                   = Fin (budget - (\<Sum>j\<le>k. amount_value rt (xs ! j))))
          \<longrightarrow> (\<forall>k<length xs. row_shown rt (c_totalBudget c) xs k = row_at rt budget xs k))"
proof (intro conjI impI allI)
  have s: "js_sort (date_compare rt) (c_expenses c) = Some xs"
    using assms by (simp add: js_sort_by_date)
  show "updateTable rt True c =
           Some (if c_expenses c = [] then (c, EmptyState)
                 else (c\<lparr>c_expenses := xs\<rparr>,
                       Rows (map (row_shown rt (c_totalBudget c) xs) [0..<length xs])))"
    by (simp add: updateTable_def s rows_from_shown)
next
  fix k
  assume h: "(\<forall>e \<in> set xs. \<exists>a. parseFloat rt (c_amount e) = Fin a)
            \<and> c_totalBudget c = Fin budget
            \<and> (\<forall>k<length xs. roundDouble rt (budget - (\<Sum>j\<le>k. amount_value rt (xs ! j)))
                   = Fin (budget - (\<Sum>j\<le>k. amount_value rt (xs ! j))))"
    and k: "k < length xs"
  from h have "running_balance rt (Fin budget) (take (Suc k) xs)
      = Fin (budget - (\<Sum>j\<le>k. amount_value rt (xs ! j)))"
    using k by (intro running_balance_exact) auto
  with h show "row_shown rt (c_totalBudget c) xs k = row_at rt budget xs k"
    by (simp add: row_shown_def row_at_def)
qed

theorem updateTable_running_balance_witness:
  "updateTable example_rt True \<lparr>c_totalBudget = Fin 60, c_expenses = [jan10c, jan02c]\<rparr> =
     Some (\<lparr>c_totalBudget = Fin 60, c_expenses = [jan02c, jan10c]\<rparr>,
           Rows [\<lparr>r_expense = jan02c, r_balance = Fin 40, r_negative = False\<rparr>,
                 \<lparr>r_expense = jan10c, r_balance = Fin (- 10), r_negative = True\<rparr>])"
proof -
  let ?c = "\<lparr>c_totalBudget = Fin 60, c_expenses = [jan10c, jan02c]\<rparr>"
  let ?xs = "[jan02c, jan10c]"
  have d: "\<forall>e \<in> set (c_expenses ?c). parseDate example_rt (c_date e) \<noteq> None"
    by (simp add: jan10c_def jan02c_def example_rt_def)
  have x: "?xs = sort_key (time_value example_rt) (c_expenses ?c)"
    by (simp add: jan10c_def jan02c_def example_rt_def time_value_def)
  have a: "\<forall>e \<in> set ?xs. \<exists>a. parseFloat example_rt (c_amount e) = Fin a"
    by (simp add: jan10c_def jan02c_def example_rt_def parseFloat_def)
  have v: "amount_value example_rt jan02c = 20" "amount_value example_rt jan10c = 50"
    by (simp_all add: jan10c_def jan02c_def example_rt_def amount_value_def parseFloat_def)
  have r40: "roundDouble example_rt 40 = Fin 40" "roundDouble example_rt (- 10) = Fin (- 10)"
    by (simp_all add: example_rt_def)
  have r: "\<forall>k<length ?xs. roundDouble example_rt (60 - (\<Sum>j\<le>k. amount_value example_rt (?xs ! j)))
                   = Fin (60 - (\<Sum>j\<le>k. amount_value example_rt (?xs ! j)))"
  proof (intro allI impI)
    fix k assume "k < length ?xs"
    then consider "k = 0" | "k = Suc 0" by fastforce
    then show "roundDouble example_rt (60 - (\<Sum>j\<le>k. amount_value example_rt (?xs ! j)))
                   = Fin (60 - (\<Sum>j\<le>k. amount_value example_rt (?xs ! j)))"
      by cases (simp_all add: v r40)
  qed
  have b: "c_totalBudget ?c = Fin 60" and ne: "c_expenses ?c \<noteq> []"
    by simp_all
  note th = updateTable_running_balance [OF d x, of 60]
  from th have t1: "updateTable example_rt True ?c =
      Some (if c_expenses ?c = [] then (?c, EmptyState)
            else (?c\<lparr>c_expenses := ?xs\<rparr>,
                  Rows (map (row_shown example_rt (c_totalBudget ?c) ?xs) [0..<length ?xs])))"
    by (rule conjunct1)
  from th a b r
  have t2: "\<forall>k<length ?xs. row_shown example_rt (c_totalBudget ?c) ?xs k = row_at example_rt 60 ?xs k"
    by blast
  have r0: "row_shown example_rt (c_totalBudget ?c) ?xs 0 = row_at example_rt 60 ?xs 0"
    and r1: "row_shown example_rt (c_totalBudget ?c) ?xs (Suc 0) = row_at example_rt 60 ?xs (Suc 0)"
    using t2 by simp_all
  have u: "[0..<length ?xs] = [0, Suc 0]"
    by (simp add: upt_rec)
  have "updateTable example_rt True ?c =
      Some (?c\<lparr>c_expenses := ?xs\<rparr>, Rows [row_at example_rt 60 ?xs 0, row_at example_rt 60 ?xs (Suc 0)])"
    unfolding t1 u using r0 r1 by simp
  then show ?thesis
    by (simp add: row_at_def v)
qed

lemma example_parseFloat: "parseFloat example_rt (JNum (Fin dbl_001)) = Fin dbl_001"
    "parseFloat example_rt (JNum (Fin dbl_01)) = Fin dbl_01"
    "parseFloat example_rt JNull = NaN"
    by (simp_all add: parseFloat_def example_rt_def dbl_001_def dbl_01_def)

lemma example_roundDouble: "roundDouble example_rt (dbl_011 - dbl_001) = Fin dbl_01"
    "roundDouble example_rt (dbl_01 - dbl_01) = Fin 0"
    by (simp_all add: example_rt_def dbl_011_def dbl_001_def dbl_01_def)

lemma example_sort_cent_dime: "js_sort (date_compare example_rt) [cent, dime] = Some [cent, dime]"
  by (subst js_sort_by_date) (simp_all add: cent_def dime_def example_rt_def time_value_def)

lemma example_sort_no_amount: "js_sort (date_compare example_rt) [no_amount] = Some [no_amount]"
  by (subst js_sort_by_date) (simp_all add: no_amount_def example_rt_def time_value_def)

text \<open>With an expense whose date is not a date the comparator returns \<open>NaN\<close>, and the
  order in which \<open>updateTable\<close> shows the rows is not fixed by the code.\<close>

lemma example_sort_undated: "js_sort (date_compare example_rt) [jan10c, undated, jan02c] = None"
proof -
  have "date_compare example_rt undated undated = NaN"
    by (simp add: date_compare_def undated_def example_rt_def)
  then have "\<not> consistent_comparator (date_compare example_rt) [jan10c, undated, jan02c]"
    unfolding consistent_comparator_def by (metis list.set_intros(1,2))
  then show ?thesis by (simp add: js_sort_def)
qed

text \<open>
  Claim C8 as stated fails. With the budget 0.11 and the amounts 0.01 and 0.1, all three
  as doubles, the first subtraction rounds to the double 0.1 (the exact difference is
  less than half a unit in the last place away from it) and the second gives 0: the
  second row shows the balance 0 and is not flagged, although the budget minus the sum
  of the two amounts is below 0. With an amount that is \<open>null\<close>, \<open>parseFloat\<close> gives \<open>NaN\<close>
  and the row shows \<open>NaN\<close>, not flagged.
\<close>

theorem updateTable_running_balance_counterexample:
  "updateTable example_rt True \<lparr>c_totalBudget = Fin dbl_011, c_expenses = [cent, dime]\<rparr> =
     Some (\<lparr>c_totalBudget = Fin dbl_011, c_expenses = [cent, dime]\<rparr>,
           Rows [\<lparr>r_expense = cent, r_balance = Fin dbl_01, r_negative = False\<rparr>,
                 \<lparr>r_expense = dime, r_balance = Fin 0, r_negative = False\<rparr>])
   \<and> dbl_011 - (dbl_001 + dbl_01) < 0
   \<and> \<bar>(dbl_011 - dbl_001) - dbl_01\<bar> < 1 / 2 ^ 57
   \<and> updateTable example_rt True \<lparr>c_totalBudget = Fin 60, c_expenses = [no_amount]\<rparr> =
     Some (\<lparr>c_totalBudget = Fin 60, c_expenses = [no_amount]\<rparr>,
           Rows [\<lparr>r_expense = no_amount, r_balance = NaN, r_negative = False\<rparr>])"
proof (intro conjI)
  have am: "c_amount cent = JNum (Fin dbl_001)" "c_amount dime = JNum (Fin dbl_01)"
    "c_amount no_amount = JNull"
    by (simp_all add: cent_def dime_def no_amount_def)
  have pos: "\<not> dbl_01 < 0"
    by (simp add: dbl_01_def)
  have "rows_from example_rt (Fin dbl_011) [cent, dime] =
      [\<lparr>r_expense = cent, r_balance = Fin dbl_01, r_negative = False\<rparr>,
       \<lparr>r_expense = dime, r_balance = Fin 0, r_negative = False\<rparr>]"
    using example_roundDouble pos
    by (simp add: Let_def num_sub_def am example_parseFloat)
  then show "updateTable example_rt True \<lparr>c_totalBudget = Fin dbl_011, c_expenses = [cent, dime]\<rparr> =
     Some (\<lparr>c_totalBudget = Fin dbl_011, c_expenses = [cent, dime]\<rparr>,
           Rows [\<lparr>r_expense = cent, r_balance = Fin dbl_01, r_negative = False\<rparr>,
                 \<lparr>r_expense = dime, r_balance = Fin 0, r_negative = False\<rparr>])"
    by (simp add: updateTable_def example_sort_cent_dime)
  show "dbl_011 - (dbl_001 + dbl_01) < 0"
    by (simp add: dbl_011_def dbl_001_def dbl_01_def)
  show "\<bar>(dbl_011 - dbl_001) - dbl_01\<bar> < 1 / 2 ^ 57"
    by (simp add: dbl_011_def dbl_001_def dbl_01_def)
  have "rows_from example_rt (Fin 60) [no_amount] =
      [\<lparr>r_expense = no_amount, r_balance = NaN, r_negative = False\<rparr>]"
    by (simp add: Let_def num_sub_def am example_parseFloat)
  then show "updateTable example_rt True \<lparr>c_totalBudget = Fin 60, c_expenses = [no_amount]\<rparr> =
     Some (\<lparr>c_totalBudget = Fin 60, c_expenses = [no_amount]\<rparr>,
           Rows [\<lparr>r_expense = no_amount, r_balance = NaN, r_negative = False\<rparr>])"
    by (simp add: updateTable_def example_sort_no_amount)
qed

end
